theory Spec2Isabelle
  imports Complex_Main
begin

section \<open>The space shooter simulation of Workshop/SpaceShooter.tsx\<close>

text \<open>
  The component keeps its world in two React state cells, \<open>gameState\<close> and \<open>score\<close>,
  and advances it by \<open>updateGame\<close>, once per animation frame. JavaScript numbers that
  hold coordinates, sizes and speeds are modelled as reals; the numbers that only ever
  hold integers (the enemy type, the explosion frame, the score and the millisecond
  timestamps of \<open>Date.now()\<close>) are modelled as integers. The objects of the entity
  arrays are mutated in place by the source; no object occurs in two arrays, so the
  model rebuilds each list with the updated records.
\<close>

subsection \<open>Data model\<close>

record explosion =
  x :: real
  y :: real
  frame :: int
  active :: bool

record gameObject =
  x :: real
  y :: real
  width :: real
  height :: real
  speed :: real
  active :: bool

record enemy = gameObject +
  type :: int

type_synonym bullet = gameObject
type_synonym enemyBullet = gameObject
type_synonym player = gameObject

text \<open>The props of the component that the simulation or the reset read, with the colours
  and the star size of the renderer. The font and the style are left to the host.\<close>

record spaceShooterProps =
  backgroundColor :: string
  playerColor :: string
  bulletColor :: string
  enemyColor :: string
  enemyBulletColor :: string
  explosionColor :: string
  scoreColor :: string
  starColor :: string
  starSize :: real
  gameSpeed :: real
  playerSize :: real
  enemySize :: real

text \<open>The world: the fields of \<open>gameState\<close> and the \<open>score\<close> cell.\<close>

record world =
  player :: player
  bullets :: "bullet list"
  enemyBullets :: "enemyBullet list"
  enemies :: "enemy list"
  explosions :: "explosion list"
  lastEnemySpawn :: int
  lastBulletFire :: int
  gameOver :: bool
  score :: int

text \<open>What one tick reads from outside the world: the held keys (\<open>keysRef\<close>), the touch
  target (\<open>touchRef\<close>), the clock (\<open>Date.now()\<close>) and the successive results of
  \<open>Math.random()\<close>, in the order of the calls.\<close>

record tickInput =
  keys :: "string set"
  touch :: "(real \<times> real) option"
  currentTime :: int
  random :: "nat \<Rightarrow> real"

text \<open>The component: its props and its world. \<open>resetGame\<close> acts on it.\<close>

record component =
  props :: spaceShooterProps
  game :: world

abbreviation CANVAS_WIDTH :: real where "CANVAS_WIDTH \<equiv> 800"
abbreviation CANVAS_HEIGHT :: real where "CANVAS_HEIGHT \<equiv> 600"

subsection \<open>Collision test and entity factories\<close>

definition checkCollision :: "'a gameObject_scheme \<Rightarrow> 'b gameObject_scheme \<Rightarrow> bool" where
  "checkCollision obj1 obj2 =
     (x obj1 < x obj2 + width obj2 \<and>
      x obj1 + width obj1 > x obj2 \<and>
      y obj1 < y obj2 + height obj2 \<and>
      y obj1 + height obj1 > y obj2)"

text \<open>\<open>spawnEnemy\<close> draws three random numbers: for x, for the speed and for the type.\<close>

definition spawnEnemy :: "spaceShooterProps \<Rightarrow> (nat \<Rightarrow> real) \<Rightarrow> enemy" where
  "spawnEnemy p rnd =
     \<lparr> x = rnd 0 * (CANVAS_WIDTH - enemySize p),
       y = - enemySize p,
       width = enemySize p,
       height = enemySize p,
       speed = 2 + rnd 1 * 3,
       active = True,
       type = \<lfloor>rnd 2 * 2\<rfloor> \<rparr>"

definition fireBullet :: "player \<Rightarrow> bullet" where
  "fireBullet pl =
     \<lparr> x = x pl + width pl / 2 - 2,
       y = y pl,
       width = 4,
       height = 12,
       speed = 8,
       active = True \<rparr>"

definition fireEnemyBullet :: "enemy \<Rightarrow> enemyBullet" where
  "fireEnemyBullet e =
     \<lparr> x = x e + width e / 2 - 2,
       y = y e + height e,
       width = 4,
       height = 8,
       speed = 4,
       active = True \<rparr>"

subsection \<open>Initial state and reset\<close>

definition freshWorld :: "spaceShooterProps \<Rightarrow> world" where
  "freshWorld p =
     \<lparr> player = \<lparr> x = 400, y = 500, width = playerSize p, height = playerSize p,
                  speed = 5, active = True \<rparr>,
       bullets = [],
       enemyBullets = [],
       enemies = [],
       explosions = [],
       lastEnemySpawn = 0,
       lastBulletFire = 0,
       gameOver = False,
       score = 0 \<rparr>"

definition resetGame :: "component \<Rightarrow> component" where
  "resetGame c = c\<lparr> game := freshWorld (props c) \<rparr>"

text \<open>The effect that follows a change of the \<open>playerSize\<close> prop.\<close>

definition resizePlayer :: "spaceShooterProps \<Rightarrow> world \<Rightarrow> world" where
  "resizePlayer p s =
     s\<lparr> player := (player s)\<lparr> width := playerSize p, height := playerSize p \<rparr> \<rparr>"

subsection \<open>The phases of \<open>updateGame\<close>, in the order of the source\<close>

text \<open>Keyboard: four independent tests, each guarded by the position before the move.\<close>

definition moveByKeys :: "real \<Rightarrow> string set \<Rightarrow> player \<Rightarrow> player" where
  "moveByKeys gs ks pl =
     (let p1 = (if ''ArrowLeft'' \<in> ks \<and> x pl > 0
                then pl\<lparr> x := x pl - speed pl * gs \<rparr> else pl);
          p2 = (if ''ArrowRight'' \<in> ks \<and> x p1 < CANVAS_WIDTH - width p1
                then p1\<lparr> x := x p1 + speed p1 * gs \<rparr> else p1);
          p3 = (if ''ArrowUp'' \<in> ks \<and> y p2 > 0
                then p2\<lparr> y := y p2 - speed p2 * gs \<rparr> else p2);
          p4 = (if ''ArrowDown'' \<in> ks \<and> y p3 < CANVAS_HEIGHT - height p3
                then p3\<lparr> y := y p3 + speed p3 * gs \<rparr> else p3)
      in p4)"

text \<open>Touch: the move towards the target and the clamp ("Keep player in bounds") are
  both inside the test of \<open>touchRef.current\<close>.\<close>

definition moveByTouch :: "real \<Rightarrow> (real \<times> real) option \<Rightarrow> player \<Rightarrow> player" where
  "moveByTouch gs t pl =
     (case t of
        None \<Rightarrow> pl
      | Some (tx, ty) \<Rightarrow>
          (let targetX = tx - width pl / 2;
               targetY = ty - height pl / 2;
               dx = targetX - x pl;
               dy = targetY - y pl;
               distance = sqrt (dx * dx + dy * dy);
               p1 = (if distance > 5
                     then pl\<lparr> x := x pl + (dx / distance) * speed pl * gs,
                              y := y pl + (dy / distance) * speed pl * gs \<rparr>
                     else pl);
               p2 = p1\<lparr> x := max 0 (min (CANVAS_WIDTH - width p1) (x p1)) \<rparr>;
               p3 = p2\<lparr> y := max 0 (min (CANVAS_HEIGHT - height p2) (y p2)) \<rparr>
           in p3))"

definition movePlayer :: "spaceShooterProps \<Rightarrow> tickInput \<Rightarrow> world \<Rightarrow> world" where
  "movePlayer p i s =
     s\<lparr> player := moveByTouch (gameSpeed p) (touch i)
                     (moveByKeys (gameSpeed p) (keys i) (player s)) \<rparr>"

definition autoFire :: "tickInput \<Rightarrow> world \<Rightarrow> world" where
  "autoFire i s =
     (if currentTime i - lastBulletFire s > 200
      then s\<lparr> bullets := bullets s @ [fireBullet (player s)],
               lastBulletFire := currentTime i \<rparr>
      else s)"

text \<open>The filter callbacks move every element and then decide whether it stays.\<close>

definition updateBullets :: "spaceShooterProps \<Rightarrow> world \<Rightarrow> world" where
  "updateBullets p s =
     s\<lparr> bullets :=
          filter (\<lambda>b. y b > - height b \<and> active b)
            (map (\<lambda>b. b\<lparr> y := y b - speed b * gameSpeed p \<rparr>) (bullets s)) \<rparr>"

definition updateEnemyBullets :: "spaceShooterProps \<Rightarrow> world \<Rightarrow> world" where
  "updateEnemyBullets p s =
     s\<lparr> enemyBullets :=
          filter (\<lambda>b. y b < CANVAS_HEIGHT + height b \<and> active b)
            (map (\<lambda>b. b\<lparr> y := y b + speed b * gameSpeed p \<rparr>) (enemyBullets s)) \<rparr>"

definition spawns :: "tickInput \<Rightarrow> world \<Rightarrow> bool" where
  "spawns i s = (currentTime i - lastEnemySpawn s > 1000)"

definition spawnEnemies :: "spaceShooterProps \<Rightarrow> tickInput \<Rightarrow> world \<Rightarrow> world" where
  "spawnEnemies p i s =
     (if spawns i s
      then s\<lparr> enemies := enemies s @ [spawnEnemy p (random i)],
               lastEnemySpawn := currentTime i \<rparr>
      else s)"

text \<open>The enemy filter: each enemy moves, draws one random number to decide whether it
  shoots (the bullet starts from the moved enemy and is pushed on the enemy bullets),
  and stays if it is on screen and active. The result is the enemies that stay and the
  bullets pushed, in order.\<close>

fun moveEnemies :: "real \<Rightarrow> (nat \<Rightarrow> real) \<Rightarrow> enemy list \<Rightarrow> enemy list \<times> enemyBullet list" where
  "moveEnemies gs rnd [] = ([], [])"
| "moveEnemies gs rnd (e # es) =
     (let e' = e\<lparr> y := y e + speed e * gs \<rparr>;
          shots = (if rnd 0 < 0.005 * gs then [fireEnemyBullet e'] else []);
          (es', bs) = moveEnemies gs (\<lambda>n. rnd (Suc n)) es
      in (if y e' < CANVAS_HEIGHT + height e' \<and> active e' then e' # es' else es',
          shots @ bs))"

definition updateEnemies :: "spaceShooterProps \<Rightarrow> (nat \<Rightarrow> real) \<Rightarrow> world \<Rightarrow> world" where
  "updateEnemies p rnd s =
     (let (es', bs) = moveEnemies (gameSpeed p) rnd (enemies s)
      in s\<lparr> enemyBullets := enemyBullets s @ bs, enemies := es' \<rparr>)"

definition enemyExplosion :: "enemy \<Rightarrow> explosion" where
  "enemyExplosion e =
     \<lparr> explosion.x = x e + width e / 2,
       explosion.y = y e + height e / 2,
       frame = 0,
       explosion.active = True \<rparr>"

definition playerExplosion :: "player \<Rightarrow> explosion" where
  "playerExplosion pl =
     \<lparr> explosion.x = x pl + width pl / 2,
       explosion.y = y pl + height pl / 2,
       frame = 0,
       explosion.active = True \<rparr>"

text \<open>The test of the bullet-enemy pass.\<close>

definition hits :: "bullet \<Rightarrow> enemy \<Rightarrow> bool" where
  "hits b e = (active b \<and> active e \<and> checkCollision b e)"

text \<open>The inner \<open>forEach\<close>: one bullet against every enemy, in array order. The
  explosions and the score are threaded through, as the pushes and the \<open>setScore\<close>
  updaters happen in this order.\<close>

fun bulletVsEnemies ::
  "bullet \<Rightarrow> enemy list \<Rightarrow> explosion list \<Rightarrow> int \<Rightarrow> bullet \<times> enemy list \<times> explosion list \<times> int" where
  "bulletVsEnemies b [] exs sc = (b, [], exs, sc)"
| "bulletVsEnemies b (e # es) exs sc =
     (if hits b e
      then (let (b', es', exs', sc') =
                  bulletVsEnemies (b\<lparr> active := False \<rparr>) es
                    (exs @ [enemyExplosion e]) (sc + (type e + 1) * 10)
            in (b', e\<lparr> active := False \<rparr> # es', exs', sc'))
      else (let (b', es', exs', sc') = bulletVsEnemies b es exs sc
            in (b', e # es', exs', sc')))"

text \<open>The outer \<open>forEach\<close>: every bullet, in array order.\<close>

fun bulletsVsEnemies ::
  "bullet list \<Rightarrow> enemy list \<Rightarrow> explosion list \<Rightarrow> int \<Rightarrow>
     bullet list \<times> enemy list \<times> explosion list \<times> int" where
  "bulletsVsEnemies [] es exs sc = ([], es, exs, sc)"
| "bulletsVsEnemies (b # bs) es exs sc =
     (let (b', es', exs', sc') = bulletVsEnemies b es exs sc;
          (bs', es'', exs'', sc'') = bulletsVsEnemies bs es' exs' sc'
      in (b' # bs', es'', exs'', sc''))"

definition bulletEnemyCollisions :: "world \<Rightarrow> world" where
  "bulletEnemyCollisions s =
     (let (bs', es', exs', sc') =
            bulletsVsEnemies (bullets s) (enemies s) (explosions s) (score s)
      in s\<lparr> bullets := bs', enemies := es', explosions := exs', score := sc' \<rparr>)"

text \<open>The two passes against the player: a \<open>forEach\<close> that sets the flag and pushes an
  explosion for every active object that overlaps the player.\<close>

fun vsPlayer :: "player \<Rightarrow> 'a gameObject_scheme list \<Rightarrow> bool \<times> explosion list \<Rightarrow> bool \<times> explosion list" where
  "vsPlayer pl [] acc = acc"
| "vsPlayer pl (e # es) (go, exs) =
     (if active e \<and> checkCollision e pl
      then vsPlayer pl es (True, exs @ [playerExplosion pl])
      else vsPlayer pl es (go, exs))"

definition enemyPlayerCollisions :: "world \<Rightarrow> world" where
  "enemyPlayerCollisions s =
     (let (go, exs) = vsPlayer (player s) (enemies s) (gameOver s, explosions s)
      in s\<lparr> explosions := exs, gameOver := go \<rparr>)"

definition enemyBulletPlayerCollisions :: "world \<Rightarrow> world" where
  "enemyBulletPlayerCollisions s =
     (let (go, exs) = vsPlayer (player s) (enemyBullets s) (gameOver s, explosions s)
      in s\<lparr> explosions := exs, gameOver := go \<rparr>)"

definition filterInactive :: "world \<Rightarrow> world" where
  "filterInactive s =
     s\<lparr> bullets := filter active (bullets s),
        enemyBullets := filter active (enemyBullets s),
        enemies := filter active (enemies s) \<rparr>"

definition updateExplosions :: "world \<Rightarrow> world" where
  "updateExplosions s =
     s\<lparr> explosions :=
          filter (\<lambda>e. frame e < 10)
            (map (\<lambda>e. e\<lparr> frame := frame e + 1 \<rparr>) (explosions s)) \<rparr>"

subsection \<open>The simulation step\<close>

text \<open>The phases between the auto-fire and the collision passes: the three filters
  that move the entities, and the enemy spawn. The enemies draw their random numbers
  after the three of a spawned enemy.\<close>

definition moveAndSpawn :: "spaceShooterProps \<Rightarrow> tickInput \<Rightarrow> world \<Rightarrow> world" where
  "moveAndSpawn p i s =
     (let s3 = updateBullets p s;
          s4 = updateEnemyBullets p s3;
          s5 = spawnEnemies p i s4;
          rnd = (if spawns i s4 then (\<lambda>n. random i (n + 3)) else random i)
      in updateEnemies p rnd s5)"

text \<open>The world before any collision pass.\<close>

definition advance :: "spaceShooterProps \<Rightarrow> tickInput \<Rightarrow> world \<Rightarrow> world" where
  "advance p i s = moveAndSpawn p i (autoFire i (movePlayer p i s))"

text \<open>The world after the bullet-enemy pass, before the two passes against the player.\<close>

definition beforePlayerPasses :: "spaceShooterProps \<Rightarrow> tickInput \<Rightarrow> world \<Rightarrow> world" where
  "beforePlayerPasses p i s = bulletEnemyCollisions (advance p i s)"

definition finish :: "world \<Rightarrow> world" where
  "finish s =
     updateExplosions (filterInactive (enemyBulletPlayerCollisions (enemyPlayerCollisions s)))"

definition updateGame :: "spaceShooterProps \<Rightarrow> tickInput \<Rightarrow> world \<Rightarrow> world" where
  "updateGame p i s =
     (if gameOver s then s else finish (beforePlayerPasses p i s))"

text \<open>A run of ticks; the props and the inputs may differ from tick to tick.\<close>

fun runTicks :: "(spaceShooterProps \<times> tickInput) list \<Rightarrow> world \<Rightarrow> world" where
  "runTicks [] s = s"
| "runTicks ((p, i) # pis) s = runTicks pis (updateGame p i s)"

subsection \<open>Notions used in the statements\<close>

text \<open>An enemy across the bullet-enemy pass: it is unchanged, or it was active and only
  its flag was cleared.\<close>

definition deactivated :: "enemy \<Rightarrow> enemy \<Rightarrow> bool" where
  "deactivated e e' = (e' = e \<or> (active e \<and> e' = e\<lparr> active := False \<rparr>))"

text \<open>The points of a pass, read off the enemies before and after it: \<open>(type + 1) * 10\<close>
  for every enemy that was active before and is inactive after.\<close>

fun points :: "enemy list \<Rightarrow> enemy list \<Rightarrow> int" where
  "points (e # es) (e' # es') =
     (if active e \<and> \<not> active e' then (type e + 1) * 10 else 0) + points es es'"
| "points es es' = 0"

text \<open>Every enemy has type 0 or 1, as \<open>spawnEnemy\<close> makes them.\<close>

definition typesOk :: "world \<Rightarrow> bool" where
  "typesOk s = (\<forall>e\<in>set (enemies s). type e = 0 \<or> type e = 1)"

text \<open>The contract of \<open>Math.random()\<close>: every result is in [0, 1).\<close>

definition randomOk :: "tickInput \<Rightarrow> bool" where
  "randomOk i = (\<forall>n. 0 \<le> random i n \<and> random i n < 1)"

text \<open>Every explosion of the world has a frame from 1 to 9.\<close>

definition framesOk :: "world \<Rightarrow> bool" where
  "framesOk s = (\<forall>e\<in>set (explosions s). 1 \<le> frame e \<and> frame e \<le> 9)"

subsection \<open>Concrete props, inputs and worlds\<close>

text \<open>The default props of the component.\<close>

definition defaultProps :: spaceShooterProps where
  "defaultProps =
     \<lparr> backgroundColor = ''#000011'', playerColor = ''#00FF00'', bulletColor = ''#FFFF00'',
       enemyColor = ''#FF0000'', enemyBulletColor = ''#FF6600'',
       explosionColor = ''#FFA500'', scoreColor = ''#FFFFFF'', starColor = ''#FFFFFF'',
       starSize = 2, gameSpeed = 1, playerSize = 32, enemySize = 32 \<rparr>"

text \<open>A tick at time \<open>t\<close> with no key held, no touch target and every random number 1/2
  (no enemy shoots).\<close>

definition idleInput :: "int \<Rightarrow> tickInput" where
  "idleInput t = \<lparr> keys = {}, touch = None, currentTime = t, random = (\<lambda>n. 1 / 2) \<rparr>"

text \<open>An enemy of type 1 that overlaps the default player at (400, 500).\<close>

definition rammingEnemy :: enemy where
  "rammingEnemy =
     \<lparr> x = 400, y = 480, width = 32, height = 32, speed = 2, active = True, type = 1 \<rparr>"

text \<open>A finished game: the enemy is on the player, a bullet is in flight, the score is 30.\<close>

definition lostWorld :: world where
  "lostWorld =
     \<lparr> player = \<lparr> x = 400, y = 500, width = 32, height = 32, speed = 5, active = True \<rparr>,
       bullets = [\<lparr> x = 414, y = 300, width = 4, height = 12, speed = 8, active = True \<rparr>],
       enemyBullets = [],
       enemies = [rammingEnemy],
       explosions = [\<lparr> explosion.x = 416, explosion.y = 516, frame = 1,
                       explosion.active = True \<rparr>],
       lastEnemySpawn = 1000,
       lastBulletFire = 1000,
       gameOver = True,
       score = 30 \<rparr>"

text \<open>The player of the default props at its start position.\<close>

definition defaultPlayer :: player where
  "defaultPlayer = \<lparr> x = 400, y = 500, width = 32, height = 32, speed = 5, active = True \<rparr>"

text \<open>A game in progress: after the moves of the next tick the bullet overlaps both
  enemies; one explosion is about to end, one is young.\<close>

definition battleWorld :: world where
  "battleWorld =
     \<lparr> player = defaultPlayer,
       bullets = [\<lparr> x = 410, y = 108, width = 4, height = 12, speed = 8, active = True \<rparr>],
       enemyBullets = [],
       enemies = [\<lparr> x = 400, y = 78, width = 32, height = 32, speed = 2, active = True, type = 1 \<rparr>,
                  \<lparr> x = 405, y = 90, width = 32, height = 32, speed = 2, active = True, type = 0 \<rparr>],
       explosions = [\<lparr> explosion.x = 100, explosion.y = 100, frame = 9, explosion.active = True \<rparr>,
                     \<lparr> explosion.x = 200, explosion.y = 200, frame = 1, explosion.active = True \<rparr>],
       lastEnemySpawn = 1000,
       lastBulletFire = 1000,
       gameOver = False,
       score = 30 \<rparr>"

text \<open>An enemy and an enemy bullet that both reach the player in the next tick.\<close>

definition ramWorld :: world where
  "ramWorld =
     \<lparr> player = defaultPlayer,
       bullets = [],
       enemyBullets = [\<lparr> x = 410, y = 505, width = 4, height = 8, speed = 4, active = True \<rparr>],
       enemies = [\<lparr> x = 400, y = 478, width = 32, height = 32, speed = 2, active = True, type = 1 \<rparr>],
       explosions = [],
       lastEnemySpawn = 1000,
       lastBulletFire = 1000,
       gameOver = False,
       score = 0 \<rparr>"

text \<open>An enemy that reaches the player in the next tick, and a bullet that reaches that
  enemy in the same tick.\<close>

definition shieldWorld :: world where
  "shieldWorld =
     \<lparr> player = defaultPlayer,
       bullets = [\<lparr> x = 414, y = 503, width = 4, height = 12, speed = 8, active = True \<rparr>],
       enemyBullets = [],
       enemies = [\<lparr> x = 400, y = 478, width = 32, height = 32, speed = 2, active = True, type = 0 \<rparr>],
       explosions = [],
       lastEnemySpawn = 1000,
       lastBulletFire = 1000,
       gameOver = False,
       score = 0 \<rparr>"


text \<open>The start world of the default props after ArrowRight was held for 73 ticks:
  the player is at x = 400 + 73 * 5.\<close>

definition nearRightEdge :: world where
  "nearRightEdge = (freshWorld defaultProps)\<lparr> player := (player (freshWorld defaultProps))\<lparr> x := 765 \<rparr> \<rparr>"

text \<open>A tick at time \<open>t\<close> with ArrowRight held and no touch target.\<close>

definition rightKeyInput :: "int \<Rightarrow> tickInput" where
  "rightKeyInput t = \<lparr> keys = {''ArrowRight''}, touch = None, currentTime = t, random = (\<lambda>n. 1 / 2) \<rparr>"

text \<open>The bullet and the two enemies of \<open>battleWorld\<close> after the moves of the tick.\<close>

definition flyingBullet :: bullet where
  "flyingBullet = \<lparr> x = 410, y = 100, width = 4, height = 12, speed = 8, active = True \<rparr>"

definition nearEnemy :: enemy where
  "nearEnemy = \<lparr> x = 400, y = 80, width = 32, height = 32, speed = 2, active = True, type = 1 \<rparr>"

definition farEnemy :: enemy where
  "farEnemy = \<lparr> x = 405, y = 92, width = 32, height = 32, speed = 2, active = True, type = 0 \<rparr>"

text \<open>The start world of the default props with the player moved to \<open>x0\<close>.\<close>

definition startAt :: "real \<Rightarrow> world" where
  "startAt x0 = (freshWorld defaultProps)\<lparr> player := defaultPlayer\<lparr> x := x0 \<rparr> \<rparr>"

section \<open>Properties\<close>

subsection \<open>The loops of the collision passes\<close>

lemma vsPlayer_eq:
  "vsPlayer pl es (go, exs) =
     (go \<or> filter (\<lambda>e. active e \<and> checkCollision e pl) es \<noteq> [],
      exs @ replicate (length (filter (\<lambda>e. active e \<and> checkCollision e pl) es))
              (playerExplosion pl))"
proof (induction es arbitrary: go exs)
  case Nil
  show ?case by simp
next
  case (Cons e es)
  show ?case by (simp add: Cons.IH replicate_app_Cons_same)
qed

lemma bulletVsEnemies_inactive:
  "\<not> active b \<Longrightarrow> bulletVsEnemies b es exs sc = (b, es, exs, sc)"
  by (induction es) (simp_all add: hits_def)

lemma bulletVsEnemies_find:
  "bulletVsEnemies b es exs sc =
     (case find (hits b) es of
        None \<Rightarrow> (b, es, exs, sc)
      | Some e \<Rightarrow>
          (b\<lparr> active := False \<rparr>,
           takeWhile (\<lambda>e. \<not> hits b e) es @
             e\<lparr> active := False \<rparr> # tl (dropWhile (\<lambda>e. \<not> hits b e) es),
           exs @ [enemyExplosion e],
           sc + (type e + 1) * 10))"
proof (induction es)
  case Nil
  show ?case by simp
next
  case (Cons e es)
  show ?case
  proof (cases "hits b e")
    case True
    then show ?thesis by (simp add: bulletVsEnemies_inactive)
  next
    case False
    then show ?thesis by (simp add: Cons.IH split: option.splits)
  qed
qed

lemma deactivated_refl: "list_all2 deactivated es es"
  by (simp add: list_all2_refl deactivated_def)

lemma points_same: "points es es = 0"
  by (induction es) simp_all

lemma points_trans:
  "list_all2 deactivated es es' \<Longrightarrow> list_all2 deactivated es' es'' \<Longrightarrow>
   points es es'' = points es es' + points es' es''"
proof (induction es arbitrary: es' es'')
  case Nil
  then show ?case by simp
next
  case (Cons e es)
  then show ?case
    by (auto simp add: list_all2_Cons1 deactivated_def)
qed

lemma deactivated_trans:
  "list_all2 deactivated es es' \<Longrightarrow> list_all2 deactivated es' es'' \<Longrightarrow>
   list_all2 deactivated es es''"
proof (induction es arbitrary: es' es'')
  case Nil
  then show ?case by simp
next
  case (Cons e es)
  then show ?case
    by (auto simp add: list_all2_Cons1 deactivated_def)
qed

lemma points_nonneg:
  "\<forall>e\<in>set es. 0 \<le> type e \<Longrightarrow> 0 \<le> points es es'"
  by (induction es es' rule: points.induct) simp_all

lemma bulletVsEnemies_points:
  assumes "bulletVsEnemies b es exs sc = (b', es', exs', sc')"
  shows "list_all2 deactivated es es' \<and> sc' = sc + points es es'"
  using assms
proof (induction es arbitrary: b es' exs sc)
  case Nil
  then show ?case by simp
next
  case (Cons e es)
  show ?case
  proof (cases "hits b e")
    case True
    then have "active e" and "deactivated e (e\<lparr> active := False \<rparr>)"
      by (simp_all add: hits_def deactivated_def)
    with True Cons.prems show ?thesis
      by (auto simp add: bulletVsEnemies_inactive deactivated_refl points_same)
  next
    case False
    have "deactivated e e"
      by (simp add: deactivated_def)
    with False Cons.prems Cons.IH show ?thesis
      by (auto split: prod.splits)
  qed
qed

lemma bulletsVsEnemies_points:
  assumes "bulletsVsEnemies bs es exs sc = (bs', es', exs', sc')"
  shows "list_all2 deactivated es es' \<and> sc' = sc + points es es'"
  using assms
proof (induction bs arbitrary: es exs sc bs')
  case Nil
  then show ?case by (simp add: deactivated_refl points_same)
next
  case (Cons b bs)
  obtain b1 es1 exs1 sc1 where one: "bulletVsEnemies b es exs sc = (b1, es1, exs1, sc1)"
    by (metis prod_cases4)
  obtain bs2 where rest: "bulletsVsEnemies bs es1 exs1 sc1 = (bs2, es', exs', sc')"
    using Cons.prems one by (auto split: prod.splits)
  from bulletVsEnemies_points [OF one]
  have d1: "list_all2 deactivated es es1" and s1: "sc1 = sc + points es es1"
    by simp_all
  from Cons.IH [OF rest]
  have d2: "list_all2 deactivated es1 es'" and s2: "sc' = sc1 + points es1 es'"
    by simp_all
  from d1 d2 s1 s2 show ?case
    by (simp add: points_trans [OF d1 d2] deactivated_trans [OF d1 d2])
qed

lemma bulletsVsEnemies_no_hit:
  "\<forall>b\<in>set bs. \<forall>e\<in>set es. \<not> hits b e \<Longrightarrow>
   bulletsVsEnemies bs es exs sc = (bs, es, exs, sc)"
proof (induction bs)
  case Nil
  show ?case by simp
next
  case (Cons b bs)
  have "bulletVsEnemies b es exs sc = (b, es, exs, sc)"
    using Cons.prems by (induction es) simp_all
  with Cons show ?case by simp
qed

subsection \<open>What each phase leaves alone\<close>

lemma movePlayer_simps [simp]:
  "bullets (movePlayer p i s) = bullets s"
  "enemyBullets (movePlayer p i s) = enemyBullets s"
  "enemies (movePlayer p i s) = enemies s"
  "explosions (movePlayer p i s) = explosions s"
  "lastEnemySpawn (movePlayer p i s) = lastEnemySpawn s"
  "lastBulletFire (movePlayer p i s) = lastBulletFire s"
  "gameOver (movePlayer p i s) = gameOver s"
  "score (movePlayer p i s) = score s"
  by (simp_all add: movePlayer_def)

lemma autoFire_simps [simp]:
  "player (autoFire i s) = player s"
  "enemyBullets (autoFire i s) = enemyBullets s"
  "enemies (autoFire i s) = enemies s"
  "explosions (autoFire i s) = explosions s"
  "lastEnemySpawn (autoFire i s) = lastEnemySpawn s"
  "gameOver (autoFire i s) = gameOver s"
  "score (autoFire i s) = score s"
  by (simp_all add: autoFire_def)

lemma moveAndSpawn_simps [simp]:
  "player (moveAndSpawn p i s) = player s"
  "explosions (moveAndSpawn p i s) = explosions s"
  "lastBulletFire (moveAndSpawn p i s) = lastBulletFire s"
  "gameOver (moveAndSpawn p i s) = gameOver s"
  "score (moveAndSpawn p i s) = score s"
  by (simp_all add: moveAndSpawn_def updateBullets_def updateEnemyBullets_def
      spawnEnemies_def updateEnemies_def Let_def split: prod.splits)

lemma advance_simps [simp]:
  "player (advance p i s) = player (movePlayer p i s)"
  "explosions (advance p i s) = explosions s"
  "gameOver (advance p i s) = gameOver s"
  "score (advance p i s) = score s"
  by (simp_all add: advance_def)

lemma bulletEnemyCollisions_simps [simp]:
  "player (bulletEnemyCollisions s) = player s"
  "enemyBullets (bulletEnemyCollisions s) = enemyBullets s"
  "lastEnemySpawn (bulletEnemyCollisions s) = lastEnemySpawn s"
  "lastBulletFire (bulletEnemyCollisions s) = lastBulletFire s"
  "gameOver (bulletEnemyCollisions s) = gameOver s"
  by (simp_all add: bulletEnemyCollisions_def split: prod.splits)

lemma enemyPlayerCollisions_eq:
  "enemyPlayerCollisions s =
     s\<lparr> explosions := explosions s @
          replicate (length (filter (\<lambda>e. active e \<and> checkCollision e (player s)) (enemies s)))
            (playerExplosion (player s)),
        gameOver := gameOver s \<or>
          filter (\<lambda>e. active e \<and> checkCollision e (player s)) (enemies s) \<noteq> [] \<rparr>"
  by (simp add: enemyPlayerCollisions_def vsPlayer_eq)

lemma enemyBulletPlayerCollisions_eq:
  "enemyBulletPlayerCollisions s =
     s\<lparr> explosions := explosions s @
          replicate (length (filter (\<lambda>b. active b \<and> checkCollision b (player s)) (enemyBullets s)))
            (playerExplosion (player s)),
        gameOver := gameOver s \<or>
          filter (\<lambda>b. active b \<and> checkCollision b (player s)) (enemyBullets s) \<noteq> [] \<rparr>"
  by (simp add: enemyBulletPlayerCollisions_def vsPlayer_eq)

lemma enemyPlayerCollisions_simps [simp]:
  "player (enemyPlayerCollisions s) = player s"
  "bullets (enemyPlayerCollisions s) = bullets s"
  "enemyBullets (enemyPlayerCollisions s) = enemyBullets s"
  "enemies (enemyPlayerCollisions s) = enemies s"
  "lastEnemySpawn (enemyPlayerCollisions s) = lastEnemySpawn s"
  "lastBulletFire (enemyPlayerCollisions s) = lastBulletFire s"
  "score (enemyPlayerCollisions s) = score s"
  by (simp_all add: enemyPlayerCollisions_def vsPlayer_eq)

lemma enemyPlayerCollisions_explosions:
  "explosions (enemyPlayerCollisions s) =
     explosions s @
     replicate (length (filter (\<lambda>e. active e \<and> checkCollision e (player s)) (enemies s)))
       (playerExplosion (player s))"
  by (simp add: enemyPlayerCollisions_def vsPlayer_eq)

lemma enemyPlayerCollisions_gameOver:
  "gameOver (enemyPlayerCollisions s) \<longleftrightarrow>
     gameOver s \<or> (\<exists>e\<in>set (enemies s). active e \<and> checkCollision e (player s))"
  by (simp add: enemyPlayerCollisions_def vsPlayer_eq filter_empty_conv)

lemma enemyBulletPlayerCollisions_simps [simp]:
  "player (enemyBulletPlayerCollisions s) = player s"
  "bullets (enemyBulletPlayerCollisions s) = bullets s"
  "enemyBullets (enemyBulletPlayerCollisions s) = enemyBullets s"
  "enemies (enemyBulletPlayerCollisions s) = enemies s"
  "lastEnemySpawn (enemyBulletPlayerCollisions s) = lastEnemySpawn s"
  "lastBulletFire (enemyBulletPlayerCollisions s) = lastBulletFire s"
  "score (enemyBulletPlayerCollisions s) = score s"
  by (simp_all add: enemyBulletPlayerCollisions_def vsPlayer_eq)

lemma enemyBulletPlayerCollisions_explosions:
  "explosions (enemyBulletPlayerCollisions s) =
     explosions s @
     replicate (length (filter (\<lambda>b. active b \<and> checkCollision b (player s)) (enemyBullets s)))
       (playerExplosion (player s))"
  by (simp add: enemyBulletPlayerCollisions_def vsPlayer_eq)

lemma enemyBulletPlayerCollisions_gameOver:
  "gameOver (enemyBulletPlayerCollisions s) \<longleftrightarrow>
     gameOver s \<or> (\<exists>b\<in>set (enemyBullets s). active b \<and> checkCollision b (player s))"
  by (simp add: enemyBulletPlayerCollisions_def vsPlayer_eq filter_empty_conv)

lemma finish_simps [simp]:
  "player (finish s) = player s"
  "bullets (finish s) = filter active (bullets s)"
  "enemyBullets (finish s) = filter active (enemyBullets s)"
  "enemies (finish s) = filter active (enemies s)"
  "lastEnemySpawn (finish s) = lastEnemySpawn s"
  "lastBulletFire (finish s) = lastBulletFire s"
  "score (finish s) = score s"
  by (simp_all add: finish_def updateExplosions_def filterInactive_def)

lemma finish_gameOver:
  "gameOver (finish s) \<longleftrightarrow>
     gameOver s \<or>
     (\<exists>e\<in>set (enemies s). active e \<and> checkCollision e (player s)) \<or>
     (\<exists>b\<in>set (enemyBullets s). active b \<and> checkCollision b (player s))"
  by (simp add: finish_def updateExplosions_def filterInactive_def
      enemyPlayerCollisions_gameOver enemyBulletPlayerCollisions_gameOver)

lemma finish_explosions:
  "explosions (finish s) =
     filter (\<lambda>e. frame e < 10)
       (map (\<lambda>e. e\<lparr> frame := frame e + 1 \<rparr>)
         (explosions s @
          replicate (length (filter (\<lambda>e. active e \<and> checkCollision e (player s)) (enemies s)))
            (playerExplosion (player s)) @
          replicate (length (filter (\<lambda>b. active b \<and> checkCollision b (player s)) (enemyBullets s)))
            (playerExplosion (player s))))"
  by (simp add: finish_def updateExplosions_def filterInactive_def
      enemyPlayerCollisions_explosions enemyBulletPlayerCollisions_explosions)

subsection \<open>The player across a tick\<close>

lemma moveByTouch_clamped:
  assumes "width pl \<le> CANVAS_WIDTH" and "height pl \<le> CANVAS_HEIGHT"
  shows "0 \<le> x (moveByTouch gs (Some t) pl) \<and>
         x (moveByTouch gs (Some t) pl) \<le> CANVAS_WIDTH - width (moveByTouch gs (Some t) pl) \<and>
         0 \<le> y (moveByTouch gs (Some t) pl) \<and>
         y (moveByTouch gs (Some t) pl) \<le> CANVAS_HEIGHT - height (moveByTouch gs (Some t) pl)"
  using assms by (cases t) (simp add: moveByTouch_def Let_def)

lemma moveByKeys_size [simp]:
  "width (moveByKeys gs ks pl) = width pl" "height (moveByKeys gs ks pl) = height pl"
  "active (moveByKeys gs ks pl) = active pl"
  by (simp_all add: moveByKeys_def Let_def)

lemma moveByTouch_size [simp]:
  "width (moveByTouch gs t pl) = width pl" "height (moveByTouch gs t pl) = height pl"
  "active (moveByTouch gs t pl) = active pl"
  by (simp_all add: moveByTouch_def Let_def split: option.splits)

lemma updateGame_player:
  "\<not> gameOver s \<Longrightarrow> player (updateGame p i s) = player (movePlayer p i s)"
  by (simp add: updateGame_def beforePlayerPasses_def)

lemma updateGame_touch_in_bounds:
  assumes "\<not> gameOver s" and "touch i = Some t"
    and "width (player s) \<le> CANVAS_WIDTH" and "height (player s) \<le> CANVAS_HEIGHT"
  shows "0 \<le> x (player (updateGame p i s)) \<and>
         x (player (updateGame p i s)) \<le> CANVAS_WIDTH - width (player (updateGame p i s)) \<and>
         0 \<le> y (player (updateGame p i s)) \<and>
         y (player (updateGame p i s)) \<le> CANVAS_HEIGHT - height (player (updateGame p i s))"
  using assms moveByTouch_clamped [of "moveByKeys (gameSpeed p) (keys i) (player s)" "gameSpeed p" t]
  by (simp add: updateGame_player movePlayer_def)

lemma updateGame_lastBulletFire:
  "\<not> gameOver s \<Longrightarrow> lastBulletFire (updateGame p i s) =
     (if currentTime i - lastBulletFire s > 200 then currentTime i else lastBulletFire s)"
  by (simp add: updateGame_def beforePlayerPasses_def advance_def autoFire_def)

subsection \<open>The explosions across a tick\<close>

lemma bulletVsEnemies_explosions:
  assumes "bulletVsEnemies b es exs sc = (b', es', exs', sc')"
  shows "\<exists>new. exs' = exs @ new \<and> (\<forall>e\<in>set new. frame e = 0)"
proof (cases "find (hits b) es")
  case None
  with assms show ?thesis by (simp add: bulletVsEnemies_find)
next
  case (Some e)
  with assms have "exs' = exs @ [enemyExplosion e]"
    by (simp add: bulletVsEnemies_find)
  then show ?thesis by (simp add: enemyExplosion_def)
qed

lemma bulletsVsEnemies_explosions:
  assumes "bulletsVsEnemies bs es exs sc = (bs', es', exs', sc')"
  shows "\<exists>new. exs' = exs @ new \<and> (\<forall>e\<in>set new. frame e = 0)"
  using assms
proof (induction bs arbitrary: es exs sc bs')
  case Nil
  then show ?case by simp
next
  case (Cons b bs)
  obtain b1 es1 exs1 sc1 where one: "bulletVsEnemies b es exs sc = (b1, es1, exs1, sc1)"
    by (metis prod_cases4)
  obtain bs2 where rest: "bulletsVsEnemies bs es1 exs1 sc1 = (bs2, es', exs', sc')"
    using Cons.prems one by (auto split: prod.splits)
  from bulletVsEnemies_explosions [OF one] obtain n1
    where n1: "exs1 = exs @ n1" "\<forall>e\<in>set n1. frame e = 0" by blast
  from Cons.IH [OF rest] obtain n2
    where n2: "exs' = exs1 @ n2" "\<forall>e\<in>set n2. frame e = 0" by blast
  from n1 n2 have "exs' = exs @ (n1 @ n2) \<and> (\<forall>e\<in>set (n1 @ n2). frame e = 0)"
    by auto
  then show ?case by blast
qed

lemma bulletEnemyCollisions_explosions:
  "\<exists>new. explosions (bulletEnemyCollisions s) = explosions s @ new \<and> (\<forall>e\<in>set new. frame e = 0)"
proof -
  obtain bs' es' exs' sc' where r:
    "bulletsVsEnemies (bullets s) (enemies s) (explosions s) (score s) = (bs', es', exs', sc')"
    by (metis prod_cases4)
  from bulletsVsEnemies_explosions [OF r] r show ?thesis
    by (simp add: bulletEnemyCollisions_def)
qed

lemma finish_framesOk:
  assumes "\<forall>e\<in>set (explosions s). 0 \<le> frame e \<and> frame e \<le> 9"
  shows "framesOk (finish s)"
  using assms by (auto simp add: framesOk_def finish_explosions playerExplosion_def)

lemma updateGame_framesOk:
  assumes "framesOk s"
  shows "framesOk (updateGame p i s)"
proof (cases "gameOver s")
  case True
  with assms show ?thesis by (simp add: updateGame_def)
next
  case False
  obtain new where new:
    "explosions (beforePlayerPasses p i s) = explosions s @ new" "\<forall>e\<in>set new. frame e = 0"
    using bulletEnemyCollisions_explosions [of "advance p i s"]
    by (auto simp add: beforePlayerPasses_def)
  with assms have "\<forall>e\<in>set (explosions (beforePlayerPasses p i s)). 0 \<le> frame e \<and> frame e \<le> 9"
    by (auto simp add: framesOk_def)
  then have "framesOk (finish (beforePlayerPasses p i s))"
    by (rule finish_framesOk)
  with False show ?thesis by (simp add: updateGame_def)
qed

lemma runTicks_framesOk:
  "framesOk s \<Longrightarrow> framesOk (runTicks pis s)"
proof (induction pis arbitrary: s)
  case Nil
  then show ?case by simp
next
  case (Cons a pis)
  then show ?case by (cases a) (simp add: updateGame_framesOk)
qed

subsection \<open>The passes against the player\<close>

lemma updateGame_gameOver_iff:
  assumes "\<not> gameOver s"
  shows "gameOver (updateGame p i s) \<longleftrightarrow>
     (\<exists>e\<in>set (enemies (beforePlayerPasses p i s)).
         active e \<and> checkCollision e (player (beforePlayerPasses p i s))) \<or>
     (\<exists>b\<in>set (enemyBullets (beforePlayerPasses p i s)).
         active b \<and> checkCollision b (player (beforePlayerPasses p i s)))"
proof -
  have "gameOver (beforePlayerPasses p i s) = gameOver s"
    by (simp add: beforePlayerPasses_def)
  with assms show ?thesis
    by (simp add: updateGame_def finish_gameOver)
qed

lemma beforePlayerPasses_player_active:
  "active (player (beforePlayerPasses p i s)) = active (player s)"
  by (simp add: beforePlayerPasses_def movePlayer_def)

lemma enemyPlayerCollisions_record:
  "enemyPlayerCollisions s =
     s\<lparr> explosions := explosions s @
          replicate (length (filter (\<lambda>e. active e \<and> checkCollision e (player s)) (enemies s)))
            (playerExplosion (player s)),
        gameOver := gameOver s \<or> (\<exists>e\<in>set (enemies s). active e \<and> checkCollision e (player s)) \<rparr>"
  by (simp add: enemyPlayerCollisions_def vsPlayer_eq filter_empty_conv)

lemma enemyBulletPlayerCollisions_record:
  "enemyBulletPlayerCollisions s =
     s\<lparr> explosions := explosions s @
          replicate (length (filter (\<lambda>b. active b \<and> checkCollision b (player s)) (enemyBullets s)))
            (playerExplosion (player s)),
        gameOver := gameOver s \<or> (\<exists>b\<in>set (enemyBullets s). active b \<and> checkCollision b (player s)) \<rparr>"
  by (simp add: enemyBulletPlayerCollisions_def vsPlayer_eq filter_empty_conv)

lemma finish_collider_enemy:
  assumes "e \<in> set (enemies s)" and "active e" and "checkCollision e (player s)"
  shows "gameOver (finish s) \<and> e \<in> set (enemies (finish s)) \<and>
         (playerExplosion (player (finish s)))\<lparr> frame := 1 \<rparr> \<in> set (explosions (finish s))"
proof -
  from assms have "filter (\<lambda>e. active e \<and> checkCollision e (player s)) (enemies s) \<noteq> []"
    by (auto simp add: filter_empty_conv)
  then have "0 < length (filter (\<lambda>e. active e \<and> checkCollision e (player s)) (enemies s))"
    by simp
  then have "(playerExplosion (player s))\<lparr> frame := 1 \<rparr> \<in> set (explosions (finish s))"
    by (simp add: finish_explosions playerExplosion_def image_iff)
  with assms show ?thesis
    by (auto simp add: finish_gameOver)
qed

lemma finish_collider_enemyBullet:
  assumes "b \<in> set (enemyBullets s)" and "active b" and "checkCollision b (player s)"
  shows "gameOver (finish s) \<and> b \<in> set (enemyBullets (finish s)) \<and>
         (playerExplosion (player (finish s)))\<lparr> frame := 1 \<rparr> \<in> set (explosions (finish s))"
proof -
  from assms have "filter (\<lambda>b. active b \<and> checkCollision b (player s)) (enemyBullets s) \<noteq> []"
    by (auto simp add: filter_empty_conv)
  then have "0 < length (filter (\<lambda>b. active b \<and> checkCollision b (player s)) (enemyBullets s))"
    by simp
  then have "(playerExplosion (player s))\<lparr> frame := 1 \<rparr> \<in> set (explosions (finish s))"
    by (simp add: finish_explosions playerExplosion_def image_iff)
  with assms show ?thesis
    by (auto simp add: finish_gameOver)
qed

subsection \<open>The score and the enemy types across a tick\<close>

lemma floor_type: "0 \<le> r \<Longrightarrow> r < 1 \<Longrightarrow> \<lfloor>r * 2\<rfloor> = 0 \<or> \<lfloor>r * 2 :: real\<rfloor> = 1"
  by (simp add: floor_eq_iff) linarith

lemma spawnEnemy_type:
  "0 \<le> rnd 2 \<Longrightarrow> rnd 2 < 1 \<Longrightarrow> type (spawnEnemy p rnd) = 0 \<or> type (spawnEnemy p rnd) = 1"
  by (simp add: spawnEnemy_def floor_type)

lemma moveEnemies_type:
  "e \<in> set (fst (moveEnemies gs rnd es)) \<Longrightarrow> \<exists>e0\<in>set es. type e = type e0"
proof (induction es arbitrary: rnd)
  case Nil
  then show ?case by simp
next
  case (Cons a es)
  then show ?case
    by (auto simp add: Let_def split: prod.splits if_splits) (metis fst_conv)+
qed

lemma deactivated_type:
  "list_all2 deactivated es es' \<Longrightarrow> e' \<in> set es' \<Longrightarrow> \<exists>e\<in>set es. type e' = type e"
  by (induction es es' rule: list_all2_induct) (auto simp add: deactivated_def)

lemma bulletEnemyCollisions_score:
  "list_all2 deactivated (enemies s) (enemies (bulletEnemyCollisions s)) \<and>
   score (bulletEnemyCollisions s) = score s + points (enemies s) (enemies (bulletEnemyCollisions s))"
proof -
  obtain bs' es' exs' sc' where r:
    "bulletsVsEnemies (bullets s) (enemies s) (explosions s) (score s) = (bs', es', exs', sc')"
    by (metis prod_cases4)
  from bulletsVsEnemies_points [OF r] r show ?thesis
    by (simp add: bulletEnemyCollisions_def)
qed

lemma bulletEnemyCollisions_no_hit:
  "\<forall>b\<in>set (bullets s). \<forall>e\<in>set (enemies s). \<not> hits b e \<Longrightarrow> bulletEnemyCollisions s = s"
  by (simp add: bulletEnemyCollisions_def bulletsVsEnemies_no_hit)

lemma advance_typesOk:
  assumes "typesOk s" and "randomOk i"
  shows "typesOk (advance p i s)"
proof -
  have sp: "type (spawnEnemy p (random i)) = 0 \<or> type (spawnEnemy p (random i)) = 1"
    using assms(2) by (simp add: spawnEnemy_type randomOk_def)
  have "type e = 0 \<or> type e = 1" if "e \<in> set (enemies (advance p i s))" for e
  proof -
    from that obtain rnd es where
      "e \<in> set (fst (moveEnemies (gameSpeed p) rnd es))"
      "es = enemies s \<or> es = enemies s @ [spawnEnemy p (random i)]"
      by (auto simp add: advance_def moveAndSpawn_def updateBullets_def updateEnemyBullets_def
          spawnEnemies_def updateEnemies_def Let_def split: prod.splits if_splits)
         (metis fst_conv)+
    then obtain e0 where "e0 \<in> set (enemies s) \<or> e0 = spawnEnemy p (random i)" "type e = type e0"
      using moveEnemies_type by fastforce
    with assms(1) sp show ?thesis
      by (auto simp add: typesOk_def)
  qed
  then show ?thesis by (simp add: typesOk_def)
qed

lemma updateGame_score:
  "\<not> gameOver s \<Longrightarrow>
   score (updateGame p i s) =
     score s + points (enemies (advance p i s)) (enemies (beforePlayerPasses p i s))"
  using bulletEnemyCollisions_score [of "advance p i s"]
  by (simp add: updateGame_def) (simp add: beforePlayerPasses_def)

lemma updateGame_typesOk:
  assumes "typesOk s" and "randomOk i"
  shows "typesOk (updateGame p i s)"
proof (cases "gameOver s")
  case True
  with assms show ?thesis by (simp add: updateGame_def)
next
  case False
  have a: "typesOk (advance p i s)"
    using assms by (rule advance_typesOk)
  have "list_all2 deactivated (enemies (advance p i s)) (enemies (beforePlayerPasses p i s))"
    using bulletEnemyCollisions_score [of "advance p i s"] by (simp add: beforePlayerPasses_def)
  then have "\<forall>e'\<in>set (enemies (beforePlayerPasses p i s)). type e' = 0 \<or> type e' = 1"
    using a deactivated_type unfolding typesOk_def by metis
  with False show ?thesis
    by (simp add: updateGame_def typesOk_def)
qed

lemma updateGame_score_mono:
  assumes "typesOk s" and "randomOk i"
  shows "score s \<le> score (updateGame p i s)"
proof (cases "gameOver s")
  case True
  then show ?thesis by (simp add: updateGame_def)
next
  case False
  have "typesOk (advance p i s)"
    using assms by (rule advance_typesOk)
  then have "\<forall>e\<in>set (enemies (advance p i s)). 0 \<le> type e"
    by (auto simp add: typesOk_def)
  then have "0 \<le> points (enemies (advance p i s)) (enemies (beforePlayerPasses p i s))"
    by (rule points_nonneg)
  with False show ?thesis
    by (simp add: updateGame_score)
qed

lemma runTicks_score_mono:
  "typesOk s \<Longrightarrow> \<forall>a\<in>set pis. randomOk (snd a) \<Longrightarrow> score s \<le> score (runTicks pis s)"
proof (induction pis arbitrary: s)
  case Nil
  then show ?case by simp
next
  case (Cons a pis)
  obtain p i where a: "a = (p, i)" by (cases a)
  with Cons.prems have r: "randomOk i" by simp
  have "score s \<le> score (updateGame p i s)"
    using Cons.prems(1) r by (rule updateGame_score_mono)
  moreover have "score (updateGame p i s) \<le> score (runTicks pis (updateGame p i s))"
    using Cons.prems updateGame_typesOk [OF Cons.prems(1) r] by (intro Cons.IH) simp_all
  ultimately show ?case
    by (simp add: a)
qed

lemma updateGame_score_changes:
  assumes "score (updateGame p i s) \<noteq> score s"
  shows "\<not> gameOver s \<and>
    (\<exists>b\<in>set (bullets (advance p i s)). \<exists>e\<in>set (enemies (advance p i s)).
        active b \<and> active e \<and> checkCollision b e)"
proof -
  from assms have live: "\<not> gameOver s"
    by (auto simp add: updateGame_def)
  have "\<exists>b\<in>set (bullets (advance p i s)). \<exists>e\<in>set (enemies (advance p i s)). hits b e"
  proof (rule ccontr)
    assume "\<not> ?thesis"
    then have "bulletEnemyCollisions (advance p i s) = advance p i s"
      by (intro bulletEnemyCollisions_no_hit) simp
    with live have "score (updateGame p i s) = score s"
      by (simp add: updateGame_def beforePlayerPasses_def)
    with assms show False by simp
  qed
  with live show ?thesis
    by (simp add: hits_def)
qed

subsection \<open>Counting what the bullet-enemy pass consumes\<close>

lemma bulletVsEnemies_counts:
  assumes "bulletVsEnemies b es exs sc = (b', es', exs', sc')"
  shows "length es' = length es \<and>
         length (filter active es) + length (filter active [b']) =
           length (filter active es') + length (filter active [b]) \<and>
         length exs' + length (filter active [b']) = length exs + length (filter active [b])"
proof (cases "find (hits b) es")
  case None
  with assms show ?thesis by (simp add: bulletVsEnemies_find)
next
  case (Some e)
  then have h: "hits b e" and mem: "e \<in> set es"
    by (auto simp add: find_Some_iff)
  let ?P = "\<lambda>e. \<not> hits b e"
  have dw: "dropWhile ?P es = e # tl (dropWhile ?P es)"
    using Some
    by (induction es) (auto split: if_splits)
  have "es = takeWhile ?P es @ dropWhile ?P es"
    by simp
  then have es: "es = takeWhile ?P es @ e # tl (dropWhile ?P es)"
    using dw by simp
  have es': "es' = takeWhile ?P es @ e\<lparr> active := False \<rparr> # tl (dropWhile ?P es)"
    and b': "b' = b\<lparr> active := False \<rparr>" and exs': "exs' = exs @ [enemyExplosion e]"
    using assms Some by (simp_all add: bulletVsEnemies_find)
  have "length (filter active es) =
        length (filter active (takeWhile ?P es)) + 1 + length (filter active (tl (dropWhile ?P es)))"
    using h arg_cong [OF es, of "\<lambda>l. length (filter active l)"] by (simp add: hits_def)
  moreover have "length (filter active es') =
        length (filter active (takeWhile ?P es)) + length (filter active (tl (dropWhile ?P es)))"
    by (simp add: es')
  moreover have "length es' = length es"
    using arg_cong [OF es, of length] by (simp add: es')
  ultimately show ?thesis
    using h by (simp add: b' exs' hits_def)
qed

lemma bulletsVsEnemies_counts:
  assumes "bulletsVsEnemies bs es exs sc = (bs', es', exs', sc')"
  shows "length bs' = length bs \<and> length es' = length es \<and>
         length (filter active es) + length (filter active bs') =
           length (filter active es') + length (filter active bs) \<and>
         length exs' + length (filter active bs') = length exs + length (filter active bs)"
  using assms
proof (induction bs arbitrary: es exs sc bs')
  case Nil
  then show ?case by simp
next
  case (Cons b bs)
  obtain b1 es1 exs1 sc1 where one: "bulletVsEnemies b es exs sc = (b1, es1, exs1, sc1)"
    by (metis prod_cases4)
  obtain bs2 where rest: "bulletsVsEnemies bs es1 exs1 sc1 = (bs2, es', exs', sc')"
    and bs': "bs' = b1 # bs2"
    using Cons.prems one by (auto split: prod.splits)
  from bulletVsEnemies_counts [OF one] Cons.IH [OF rest] show ?case
    by (auto simp add: bs' split: if_splits)
qed

subsection \<open>The step on the concrete worlds\<close>

lemmas advance_defs = advance_def moveAndSpawn_def
     movePlayer_def moveByKeys_def moveByTouch_def autoFire_def updateBullets_def updateEnemyBullets_def spawns_def spawnEnemies_def
     updateEnemies_def

lemma advance_battleWorld:
  "advance defaultProps (idleInput 1100) battleWorld =
     battleWorld\<lparr>
       bullets := [\<lparr> x = 410, y = 100, width = 4, height = 12, speed = 8, active = True \<rparr>],
       enemies := [\<lparr> x = 400, y = 80, width = 32, height = 32, speed = 2, active = True, type = 1 \<rparr>,
                  \<lparr> x = 405, y = 92, width = 32, height = 32, speed = 2, active = True, type = 0 \<rparr>] \<rparr>"
  by (simp add: advance_defs battleWorld_def defaultPlayer_def defaultProps_def idleInput_def)

lemma beforePlayerPasses_battleWorld:
  "beforePlayerPasses defaultProps (idleInput 1100) battleWorld =
     battleWorld\<lparr>
       bullets := [\<lparr> x = 410, y = 100, width = 4, height = 12, speed = 8, active = False \<rparr>],
       enemies := [\<lparr> x = 400, y = 80, width = 32, height = 32, speed = 2, active = False, type = 1 \<rparr>,
                  \<lparr> x = 405, y = 92, width = 32, height = 32, speed = 2, active = True, type = 0 \<rparr>],
       explosions := explosions battleWorld @
          [\<lparr> explosion.x = 416, explosion.y = 96, frame = 0, explosion.active = True \<rparr>],
       score := 50 \<rparr>"
  unfolding beforePlayerPasses_def advance_battleWorld
  by (simp add: bulletEnemyCollisions_def hits_def checkCollision_def enemyExplosion_def battleWorld_def)

lemma updateGame_battleWorld:
  "updateGame defaultProps (idleInput 1100) battleWorld =
     battleWorld\<lparr>
       bullets := [],
       enemies := [\<lparr> x = 405, y = 92, width = 32, height = 32, speed = 2, active = True, type = 0 \<rparr>],
       explosions :=
          [\<lparr> explosion.x = 200, explosion.y = 200, frame = 2, explosion.active = True \<rparr>,
           \<lparr> explosion.x = 416, explosion.y = 96, frame = 1, explosion.active = True \<rparr>],
       score := 50 \<rparr>"
proof -
  have "\<not> gameOver battleWorld"
    by (simp add: battleWorld_def)
  then have "updateGame defaultProps (idleInput 1100) battleWorld =
      finish (beforePlayerPasses defaultProps (idleInput 1100) battleWorld)"
    by (simp add: updateGame_def)
  then show ?thesis
    unfolding beforePlayerPasses_battleWorld
    by (simp add: finish_def enemyPlayerCollisions_def enemyBulletPlayerCollisions_def
        filterInactive_def updateExplosions_def checkCollision_def battleWorld_def defaultPlayer_def)
qed

lemma beforePlayerPasses_ramWorld:
  "beforePlayerPasses defaultProps (idleInput 1100) ramWorld =
     ramWorld\<lparr>
       enemyBullets := [\<lparr> x = 410, y = 509, width = 4, height = 8, speed = 4, active = True \<rparr>],
       enemies := [\<lparr> x = 400, y = 480, width = 32, height = 32, speed = 2, active = True, type = 1 \<rparr>] \<rparr>"
  by (simp add: beforePlayerPasses_def bulletEnemyCollisions_def advance_defs ramWorld_def
      defaultPlayer_def defaultProps_def idleInput_def)

lemma updateGame_ramWorld:
  "updateGame defaultProps (idleInput 1100) ramWorld =
     ramWorld\<lparr>
       enemyBullets := [\<lparr> x = 410, y = 509, width = 4, height = 8, speed = 4, active = True \<rparr>],
       enemies := [\<lparr> x = 400, y = 480, width = 32, height = 32, speed = 2, active = True, type = 1 \<rparr>],
       explosions :=
          [\<lparr> explosion.x = 416, explosion.y = 516, frame = 1, explosion.active = True \<rparr>,
           \<lparr> explosion.x = 416, explosion.y = 516, frame = 1, explosion.active = True \<rparr>],
       gameOver := True \<rparr>"
proof -
  have "\<not> gameOver ramWorld"
    by (simp add: ramWorld_def)
  then have "updateGame defaultProps (idleInput 1100) ramWorld =
      finish (beforePlayerPasses defaultProps (idleInput 1100) ramWorld)"
    by (simp add: updateGame_def)
  then show ?thesis
    unfolding beforePlayerPasses_ramWorld
    by (simp add: finish_def enemyPlayerCollisions_def enemyBulletPlayerCollisions_def
        filterInactive_def updateExplosions_def checkCollision_def playerExplosion_def
        ramWorld_def defaultPlayer_def)
qed

lemma beforePlayerPasses_shieldWorld:
  "beforePlayerPasses defaultProps (idleInput 1100) shieldWorld =
     shieldWorld\<lparr>
       bullets := [\<lparr> x = 414, y = 495, width = 4, height = 12, speed = 8, active = False \<rparr>],
       enemies := [\<lparr> x = 400, y = 480, width = 32, height = 32, speed = 2, active = False, type = 0 \<rparr>],
       explosions := [\<lparr> explosion.x = 416, explosion.y = 496, frame = 0, explosion.active = True \<rparr>],
       score := 10 \<rparr>"
  by (simp add: beforePlayerPasses_def bulletEnemyCollisions_def advance_defs hits_def
      checkCollision_def enemyExplosion_def shieldWorld_def
      defaultPlayer_def defaultProps_def idleInput_def)

subsection \<open>Holding ArrowRight from the start\<close>

lemma updateGame_startAt:
  assumes "x0 < 768"
  shows "updateGame defaultProps (rightKeyInput 100) (startAt x0) = startAt (x0 + 5)"
  using assms
  by (simp add: updateGame_def finish_def beforePlayerPasses_def bulletEnemyCollisions_def
      filterInactive_def updateExplosions_def enemyPlayerCollisions_def
      enemyBulletPlayerCollisions_def advance_defs startAt_def freshWorld_def defaultProps_def
      defaultPlayer_def rightKeyInput_def)

lemma runTicks_startAt:
  "x0 + 5 * real n \<le> 770 \<Longrightarrow>
   runTicks (replicate n (defaultProps, rightKeyInput 100)) (startAt x0) = startAt (x0 + 5 * real n)"
proof (induction n arbitrary: x0)
  case 0
  show ?case by simp
next
  case (Suc n)
  then have "x0 < 768" and "(x0 + 5) + 5 * real n \<le> 770"
    by simp_all
  with Suc.IH [of "x0 + 5"] show ?case
    by (simp add: updateGame_startAt algebra_simps)
qed

lemma startAt_400: "startAt 400 = freshWorld defaultProps"
  by (simp add: startAt_def freshWorld_def defaultPlayer_def defaultProps_def)

lemma startAt_765: "startAt 765 = nearRightEdge"
  by (simp add: startAt_def nearRightEdge_def freshWorld_def defaultPlayer_def defaultProps_def)

lemma nearRightEdge_reached:
  "runTicks (replicate 73 (defaultProps, rightKeyInput 100)) (freshWorld defaultProps) = nearRightEdge"
  using runTicks_startAt [of 400 73] by (simp add: startAt_400 startAt_765)

subsection \<open>The step on a finished game\<close>

text \<open>
  Claim C1. When the \<open>gameOver\<close> flag of the world is set, one call of \<open>updateGame\<close>
  returns the world as it was, whatever the props and the inputs: the player, the
  bullets, the enemy bullets, the enemies, the explosions, both timestamps, the score
  and the flag all keep their values.
\<close>

theorem updateGame_gameOver_noop:
  assumes "gameOver s"
  shows "updateGame p i s = s \<and>
         player (updateGame p i s) = player s \<and>
         bullets (updateGame p i s) = bullets s \<and>
         enemyBullets (updateGame p i s) = enemyBullets s \<and>
         enemies (updateGame p i s) = enemies s \<and>
         explosions (updateGame p i s) = explosions s \<and>
         lastEnemySpawn (updateGame p i s) = lastEnemySpawn s \<and>
         lastBulletFire (updateGame p i s) = lastBulletFire s \<and>
         score (updateGame p i s) = score s \<and>
         gameOver (updateGame p i s) = gameOver s"
  using assms by (simp add: updateGame_def)

theorem updateGame_gameOver_noop_witness:
  "gameOver lostWorld \<and>
   updateGame defaultProps (idleInput 5000) lostWorld = lostWorld"
proof -
  have over: "gameOver lostWorld"
    by (simp add: lostWorld_def)
  from updateGame_gameOver_noop [OF over] over show ?thesis
    by simp
qed

subsection \<open>The player and the playfield\<close>

text \<open>
  Claim C2. The claim is that after every tick of a running game the player is inside
  the playfield, \<open>0 \<le> x \<le> 800 - width\<close> and \<open>0 \<le> y \<le> 600 - height\<close>, whatever keys are
  held and whether or not a touch target is present. The source clamps the position
  only inside the test of \<open>touchRef.current\<close>; the keyboard branch tests the position
  before the move and does not clamp after it. With the default props, the player
  reaches x = 765 after ArrowRight was held for 73 ticks from the start; the position
  is inside the playfield there, the guard \<open>765 < 768\<close> lets the next tick move it, and
  the tick ends with x = 770, beyond 800 - 32 = 768.
\<close>

theorem updateGame_keyboard_overshoot:
  "runTicks (replicate 73 (defaultProps, rightKeyInput 100)) (freshWorld defaultProps) = nearRightEdge \<and>
   \<not> gameOver nearRightEdge \<and>
   0 \<le> x (player nearRightEdge) \<and>
   x (player nearRightEdge) \<le> CANVAS_WIDTH - width (player nearRightEdge) \<and>
   x (player (updateGame defaultProps (rightKeyInput 100) nearRightEdge)) = 770 \<and>
   width (player (updateGame defaultProps (rightKeyInput 100) nearRightEdge)) = 32 \<and>
   x (player (updateGame defaultProps (rightKeyInput 100) nearRightEdge)) >
     CANVAS_WIDTH - width (player (updateGame defaultProps (rightKeyInput 100) nearRightEdge))"
proof -
  have "updateGame defaultProps (rightKeyInput 100) nearRightEdge = startAt 770"
    using updateGame_startAt [of 765] by (simp add: startAt_765)
  then show ?thesis
    by (simp add: nearRightEdge_reached)
       (simp add: startAt_def nearRightEdge_def freshWorld_def defaultPlayer_def defaultProps_def)
qed

text \<open>
  With a touch target the clamp runs, and the bounds hold for a player that fits the
  playfield: this is \<open>updateGame_touch_in_bounds\<close> above.
\<close>

subsection \<open>The score\<close>

text \<open>
  Claim C3. Across any sequence of ticks the score never decreases, it changes in a tick
  only when an active bullet overlaps an active enemy in the bullet-enemy pass, and each
  such collision adds exactly \<open>(type + 1) * 10\<close> for its enemy. The enemies are those the
  program makes: every type is 0 or 1 (\<open>typesOk\<close>, which holds at the start and is kept
  by every tick), and \<open>Math.random()\<close> returns numbers in [0, 1) (\<open>randomOk\<close>).
  The conjuncts: the start world has no ill-typed enemy; the score does not decrease
  over a run of ticks; nor over one tick, which keeps the types; a tick that changes the
  score ran on a live game and had an active bullet overlapping an active enemy before
  the pass; the pass of a live game leaves every enemy as it was or with only its flag
  cleared, and the score after the tick is the score before plus \<open>(type + 1) * 10\<close> for
  every enemy the pass deactivated (\<open>points\<close>); and one check of a bullet
  against an enemy adds \<open>(type + 1) * 10\<close> if both are active and overlap, and nothing
  otherwise.
\<close>

theorem score_only_grows_by_hits:
  "typesOk (freshWorld p0) \<and>
   (typesOk s \<and> (\<forall>a\<in>set pis. randomOk (snd a)) \<longrightarrow> score s \<le> score (runTicks pis s)) \<and>
   (typesOk s \<and> randomOk i \<longrightarrow>
      score s \<le> score (updateGame p i s) \<and> typesOk (updateGame p i s)) \<and>
   (score (updateGame p i s) \<noteq> score s \<longrightarrow>
      \<not> gameOver s \<and>
      (\<exists>b\<in>set (bullets (advance p i s)). \<exists>e\<in>set (enemies (advance p i s)).
          active b \<and> active e \<and> checkCollision b e)) \<and>
   (\<not> gameOver s \<longrightarrow>
      list_all2 deactivated (enemies (advance p i s)) (enemies (beforePlayerPasses p i s)) \<and>
      score (updateGame p i s) =
        score s + points (enemies (advance p i s)) (enemies (beforePlayerPasses p i s))) \<and>
   bulletVsEnemies b [e] exs sc =
     (if active b \<and> active e \<and> checkCollision b e
      then (b\<lparr> active := False \<rparr>, [e\<lparr> active := False \<rparr>], exs @ [enemyExplosion e],
            sc + (type e + 1) * 10)
      else (b, [e], exs, sc))"
proof (intro conjI impI)
  show "typesOk (freshWorld p0)"
    by (simp add: typesOk_def freshWorld_def)
  show "score s \<le> score (runTicks pis s)"
    if "typesOk s \<and> (\<forall>a\<in>set pis. randomOk (snd a))"
    using that by (simp add: runTicks_score_mono)
  show "score s \<le> score (updateGame p i s)" if "typesOk s \<and> randomOk i"
    using that by (simp add: updateGame_score_mono)
  show "typesOk (updateGame p i s)" if "typesOk s \<and> randomOk i"
    using that by (simp add: updateGame_typesOk)
  show "\<not> gameOver s" if "score (updateGame p i s) \<noteq> score s"
    using updateGame_score_changes [OF that] by simp
  show "\<exists>b\<in>set (bullets (advance p i s)). \<exists>e\<in>set (enemies (advance p i s)).
          active b \<and> active e \<and> checkCollision b e"
    if "score (updateGame p i s) \<noteq> score s"
    using updateGame_score_changes [OF that] by simp
  show "list_all2 deactivated (enemies (advance p i s)) (enemies (beforePlayerPasses p i s))"
    using bulletEnemyCollisions_score [of "advance p i s"] by (simp add: beforePlayerPasses_def)
  show "score (updateGame p i s) =
        score s + points (enemies (advance p i s)) (enemies (beforePlayerPasses p i s))"
    if "\<not> gameOver s"
    using that by (rule updateGame_score)
  show "bulletVsEnemies b [e] exs sc =
     (if active b \<and> active e \<and> checkCollision b e
      then (b\<lparr> active := False \<rparr>, [e\<lparr> active := False \<rparr>], exs @ [enemyExplosion e],
            sc + (type e + 1) * 10)
      else (b, [e], exs, sc))"
    by (simp add: hits_def)
qed


theorem score_only_grows_by_hits_witness:
  "typesOk battleWorld \<and> randomOk (idleInput 1100) \<and> \<not> gameOver battleWorld \<and>
   score battleWorld = 30 \<and>
   score (updateGame defaultProps (idleInput 1100) battleWorld) = 50 \<and>
   points (enemies (advance defaultProps (idleInput 1100) battleWorld))
     (enemies (beforePlayerPasses defaultProps (idleInput 1100) battleWorld)) = 20 \<and>
   score battleWorld \<le> score (updateGame defaultProps (idleInput 1100) battleWorld) \<and>
   score battleWorld \<le> score (runTicks [(defaultProps, idleInput 1100)] battleWorld)"
proof -
  have t: "typesOk battleWorld" and live: "\<not> gameOver battleWorld" and s: "score battleWorld = 30"
    by (simp_all add: typesOk_def battleWorld_def)
  have r: "randomOk (idleInput 1100)"
    by (simp add: randomOk_def idleInput_def)
  have rs: "\<forall>a\<in>set [(defaultProps, idleInput 1100)]. randomOk (snd a)"
    using r by simp
  have pts: "points (enemies (advance defaultProps (idleInput 1100) battleWorld))
     (enemies (beforePlayerPasses defaultProps (idleInput 1100) battleWorld)) = 20"
    by (simp add: advance_battleWorld beforePlayerPasses_battleWorld)
  from score_only_grows_by_hits
         [of defaultProps battleWorld "[(defaultProps, idleInput 1100)]" "idleInput 1100" defaultProps]
    t r rs live
  have "score battleWorld \<le> score (updateGame defaultProps (idleInput 1100) battleWorld)"
    and "score battleWorld \<le> score (runTicks [(defaultProps, idleInput 1100)] battleWorld)"
    and "score (updateGame defaultProps (idleInput 1100) battleWorld) =
        score battleWorld + points (enemies (advance defaultProps (idleInput 1100) battleWorld))
          (enemies (beforePlayerPasses defaultProps (idleInput 1100) battleWorld))"
    by blast+
  with t r live s pts show ?thesis
    by simp
qed

text \<open>
  Claim C4. Within one tick every player bullet scores at most once and destroys at most
  one enemy, also when it overlaps several: the scan of one bullet over the enemies goes
  in array order, the first enemy it hits is deactivated together with the bullet, and
  no later enemy is touched. The conjuncts: the result of the scan of one bullet is
  given by the first enemy it hits, if any; an inactive bullet changes nothing; the scan
  of one bullet deactivates as many enemies and adds as many explosions as it
  deactivates bullets, that is one or none; and the same count holds for the whole pass
  over all bullets.
\<close>

theorem bullet_scores_once:
  "bulletVsEnemies b es exs sc =
     (case find (hits b) es of
        None \<Rightarrow> (b, es, exs, sc)
      | Some e \<Rightarrow>
          (b\<lparr> active := False \<rparr>,
           takeWhile (\<lambda>e. \<not> hits b e) es @
             e\<lparr> active := False \<rparr> # tl (dropWhile (\<lambda>e. \<not> hits b e) es),
           exs @ [enemyExplosion e],
           sc + (type e + 1) * 10)) \<and>
   (\<not> active b \<longrightarrow> bulletVsEnemies b es exs sc = (b, es, exs, sc)) \<and>
   (bulletVsEnemies b es exs sc = (b', es', exs', sc') \<longrightarrow>
      length es' = length es \<and>
      length (filter active es) + length (filter active [b']) =
        length (filter active es') + length (filter active [b]) \<and>
      length exs' + length (filter active [b']) = length exs + length (filter active [b])) \<and>
   (bulletsVsEnemies bs es exs sc = (bs', es'', exs'', sc'') \<longrightarrow>
      length bs' = length bs \<and> length es'' = length es \<and>
      length (filter active es) + length (filter active bs') =
        length (filter active es'') + length (filter active bs) \<and>
      length exs'' + length (filter active bs') = length exs + length (filter active bs))"
  using bulletVsEnemies_find [of b es exs sc] bulletVsEnemies_inactive [of b es exs sc]
    bulletVsEnemies_counts [of b es exs sc b' es' exs' sc']
    bulletsVsEnemies_counts [of bs es exs sc bs' es'' exs'' sc'']
  by blast

theorem bullet_scores_once_witness:
  "hits flyingBullet nearEnemy \<and> hits flyingBullet farEnemy \<and>
   bulletVsEnemies flyingBullet [nearEnemy, farEnemy] [] 30 =
     (flyingBullet\<lparr> active := False \<rparr>, [nearEnemy\<lparr> active := False \<rparr>, farEnemy],
      [enemyExplosion nearEnemy], 50) \<and>
   bulletsVsEnemies [flyingBullet] [nearEnemy, farEnemy] [] 30 =
     ([flyingBullet\<lparr> active := False \<rparr>], [nearEnemy\<lparr> active := False \<rparr>, farEnemy],
      [enemyExplosion nearEnemy], 50) \<and>
   length (filter active [nearEnemy, farEnemy]) =
     length (filter active [nearEnemy\<lparr> active := False \<rparr>, farEnemy]) + 1"
proof -
  have h1: "hits flyingBullet nearEnemy" and h2: "hits flyingBullet farEnemy"
    by (simp_all add: hits_def checkCollision_def flyingBullet_def nearEnemy_def farEnemy_def)
  have t: "type nearEnemy = 1" and a: "active flyingBullet"
    by (simp_all add: nearEnemy_def flyingBullet_def)
  note inst = bullet_scores_once
         [of flyingBullet "[nearEnemy, farEnemy]" "[]" 30
            "flyingBullet\<lparr> active := False \<rparr>" "[nearEnemy\<lparr> active := False \<rparr>, farEnemy]"
            "[enemyExplosion nearEnemy]" 50
            "[flyingBullet]" "[flyingBullet\<lparr> active := False \<rparr>]"
            "[nearEnemy\<lparr> active := False \<rparr>, farEnemy]" "[enemyExplosion nearEnemy]" 50]
  from inst h1 t
  have one: "bulletVsEnemies flyingBullet [nearEnemy, farEnemy] [] 30 =
     (flyingBullet\<lparr> active := False \<rparr>, [nearEnemy\<lparr> active := False \<rparr>, farEnemy],
      [enemyExplosion nearEnemy], 50)"
    by simp
  then have pass: "bulletsVsEnemies [flyingBullet] [nearEnemy, farEnemy] [] 30 =
     ([flyingBullet\<lparr> active := False \<rparr>], [nearEnemy\<lparr> active := False \<rparr>, farEnemy],
      [enemyExplosion nearEnemy], 50)"
    by simp
  from inst one a
  have "length (filter active [nearEnemy, farEnemy]) =
     length (filter active [nearEnemy\<lparr> active := False \<rparr>, farEnemy]) + 1"
    by simp
  with h1 h2 one pass show ?thesis
    by simp
qed

subsection \<open>Collisions with the player\<close>

lemma player_active_kept:
  "active (player (freshWorld p))"
  "active (player (updateGame p i s)) = active (player s)"
  "active (player (resizePlayer p s)) = active (player s)"
  by (simp_all add: freshWorld_def resizePlayer_def updateGame_def beforePlayerPasses_def movePlayer_def)

text \<open>
  Claim C5. In the enemy-player and enemy-bullet-player passes of a tick, a collision
  counts (sets \<open>gameOver\<close>, pushes an explosion) only if both participants are active at
  the check; an enemy that a bullet deactivated earlier in the same tick does not end
  the game. The passes test the flag of the enemy or of the enemy bullet; the flag of the
  player is true in every world the program makes (\<open>player_active_kept\<close>), which is the
  second assumption. The conjuncts, where the passes run on the world left by the
  bullet-enemy pass: the tick ends the game exactly when an active enemy or an active
  enemy bullet overlaps the active player; each pass pushes one explosion for every such
  object and no other; and if every enemy and enemy bullet that overlaps the player is
  inactive, the game goes on.
\<close>

theorem player_collision_needs_active:
  assumes "\<not> gameOver s" and "active (player s)"
  shows
    "(gameOver (updateGame p i s) \<longleftrightarrow>
       (\<exists>e\<in>set (enemies (beforePlayerPasses p i s)).
          active e \<and> active (player (beforePlayerPasses p i s)) \<and>
          checkCollision e (player (beforePlayerPasses p i s))) \<or>
       (\<exists>b\<in>set (enemyBullets (beforePlayerPasses p i s)).
          active b \<and> active (player (beforePlayerPasses p i s)) \<and>
          checkCollision b (player (beforePlayerPasses p i s)))) \<and>
     explosions (enemyPlayerCollisions (beforePlayerPasses p i s)) =
       explosions (beforePlayerPasses p i s) @
       replicate
         (length (filter (\<lambda>e. active e \<and> active (player (beforePlayerPasses p i s)) \<and>
                      checkCollision e (player (beforePlayerPasses p i s)))
                    (enemies (beforePlayerPasses p i s))))
         (playerExplosion (player (beforePlayerPasses p i s))) \<and>
     explosions (enemyBulletPlayerCollisions (enemyPlayerCollisions (beforePlayerPasses p i s))) =
       explosions (enemyPlayerCollisions (beforePlayerPasses p i s)) @
       replicate
         (length (filter (\<lambda>b. active b \<and> active (player (beforePlayerPasses p i s)) \<and>
                      checkCollision b (player (beforePlayerPasses p i s)))
                    (enemyBullets (beforePlayerPasses p i s))))
         (playerExplosion (player (beforePlayerPasses p i s))) \<and>
     ((\<forall>e\<in>set (enemies (beforePlayerPasses p i s)).
          checkCollision e (player (beforePlayerPasses p i s)) \<longrightarrow> \<not> active e) \<and>
      (\<forall>b\<in>set (enemyBullets (beforePlayerPasses p i s)).
          checkCollision b (player (beforePlayerPasses p i s)) \<longrightarrow> \<not> active b)
      \<longrightarrow> \<not> gameOver (updateGame p i s))"
proof -
  let ?s7 = "beforePlayerPasses p i s"
  have pa: "active (player ?s7) = True"
    using assms(2) by (simp add: beforePlayerPasses_player_active)
  have go: "gameOver (updateGame p i s) \<longleftrightarrow>
     (\<exists>e\<in>set (enemies ?s7). active e \<and> checkCollision e (player ?s7)) \<or>
     (\<exists>b\<in>set (enemyBullets ?s7). active b \<and> checkCollision b (player ?s7))"
    using assms(1) by (rule updateGame_gameOver_iff)
  have e1: "explosions (enemyPlayerCollisions ?s7) =
       explosions ?s7 @
       replicate (length (filter (\<lambda>e. active e \<and> checkCollision e (player ?s7)) (enemies ?s7)))
         (playerExplosion (player ?s7))"
    by (rule enemyPlayerCollisions_explosions)
  have e2: "explosions (enemyBulletPlayerCollisions (enemyPlayerCollisions ?s7)) =
       explosions (enemyPlayerCollisions ?s7) @
       replicate (length (filter (\<lambda>b. active b \<and> checkCollision b (player ?s7)) (enemyBullets ?s7)))
         (playerExplosion (player ?s7))"
    by (simp add: enemyBulletPlayerCollisions_explosions)
  from go have never: "(\<forall>e\<in>set (enemies ?s7). checkCollision e (player ?s7) \<longrightarrow> \<not> active e) \<and>
      (\<forall>b\<in>set (enemyBullets ?s7). checkCollision b (player ?s7) \<longrightarrow> \<not> active b)
      \<longrightarrow> \<not> gameOver (updateGame p i s)"
    by blast
  show ?thesis
    unfolding pa simp_thms
    using go e1 e2 never by (intro conjI)
qed

theorem player_collision_needs_active_witness:
  "\<not> gameOver shieldWorld \<and> active (player shieldWorld) \<and>
   enemies (beforePlayerPasses defaultProps (idleInput 1100) shieldWorld) =
     [\<lparr> x = 400, y = 480, width = 32, height = 32, speed = 2, active = False, type = 0 \<rparr>] \<and>
   checkCollision
     \<lparr> x = 400, y = 480, width = 32, height = 32, speed = 2, active = False, type = 0 \<rparr>
     (player (beforePlayerPasses defaultProps (idleInput 1100) shieldWorld)) \<and>
   \<not> gameOver (updateGame defaultProps (idleInput 1100) shieldWorld)"
proof -
  have live: "\<not> gameOver shieldWorld" and pa: "active (player shieldWorld)"
    by (simp_all add: shieldWorld_def defaultPlayer_def)
  have es: "enemies (beforePlayerPasses defaultProps (idleInput 1100) shieldWorld) =
     [\<lparr> x = 400, y = 480, width = 32, height = 32, speed = 2, active = False, type = 0 \<rparr>]"
    and bs: "enemyBullets (beforePlayerPasses defaultProps (idleInput 1100) shieldWorld) = []"
    and pl: "player (beforePlayerPasses defaultProps (idleInput 1100) shieldWorld) = defaultPlayer"
    by (simp_all add: beforePlayerPasses_shieldWorld) (simp_all add: shieldWorld_def)
  have over: "checkCollision
     \<lparr> x = 400, y = 480, width = 32, height = 32, speed = 2, active = False, type = 0 \<rparr>
     (player (beforePlayerPasses defaultProps (idleInput 1100) shieldWorld))"
    by (simp add: pl checkCollision_def defaultPlayer_def)
  from player_collision_needs_active [OF live pa, of defaultProps "idleInput 1100"]
  have "\<not> gameOver (updateGame defaultProps (idleInput 1100) shieldWorld)"
    by (simp add: es bs)
  with live pa es over show ?thesis
    by simp
qed

subsection \<open>The auto-fire\<close>

text \<open>
  Claim C6, as stated: in every tick of a running game, if at least 200 ms have passed
  since the last shot, one bullet is appended and the fire timestamp is reset. The
  source tests \<open>currentTime - lastBulletFire > 200\<close>: at exactly 200 ms there is no shot.
  From the start world at time 200, the auto-fire leaves the bullets as they were, and
  the tick ends with no bullet and the timestamp still 0.
\<close>

theorem autoFire_at_200_counterexample:
  "\<not> gameOver (freshWorld defaultProps) \<and>
   currentTime (idleInput 200) - lastBulletFire (freshWorld defaultProps) \<ge> 200 \<and>
   bullets (autoFire (idleInput 200) (movePlayer defaultProps (idleInput 200) (freshWorld defaultProps)))
     = bullets (freshWorld defaultProps) \<and>
   bullets (updateGame defaultProps (idleInput 200) (freshWorld defaultProps)) = [] \<and>
   lastBulletFire (updateGame defaultProps (idleInput 200) (freshWorld defaultProps)) = 0"
  by (simp add: updateGame_def finish_def beforePlayerPasses_def bulletEnemyCollisions_def
      filterInactive_def updateExplosions_def enemyPlayerCollisions_def
      enemyBulletPlayerCollisions_def advance_defs freshWorld_def defaultProps_def idleInput_def)

text \<open>
  Claim C6, amended. In every tick of a running game, whatever the keys and the touch
  target: if more than 200 ms have passed since the last shot, the auto-fire step
  appends exactly one bullet, made by \<open>fireBullet\<close> from the moved player, to the
  bullets, and the tick ends with the fire timestamp equal to the current time; if at
  most 200 ms have passed, the auto-fire step appends nothing and the timestamp is
  kept. The first conjunct places the step in the tick.
\<close>

theorem autoFire_after_200:
  assumes "\<not> gameOver s"
  shows "updateGame p i s =
           finish (bulletEnemyCollisions (moveAndSpawn p i (autoFire i (movePlayer p i s)))) \<and>
         (currentTime i - lastBulletFire s > 200 \<longrightarrow>
            bullets (autoFire i (movePlayer p i s)) =
              bullets s @ [fireBullet (player (movePlayer p i s))] \<and>
            lastBulletFire (autoFire i (movePlayer p i s)) = currentTime i \<and>
            lastBulletFire (updateGame p i s) = currentTime i) \<and>
         (currentTime i - lastBulletFire s \<le> 200 \<longrightarrow>
            bullets (autoFire i (movePlayer p i s)) = bullets s \<and>
            lastBulletFire (autoFire i (movePlayer p i s)) = lastBulletFire s \<and>
            lastBulletFire (updateGame p i s) = lastBulletFire s)"
  using assms
  by (simp add: updateGame_lastBulletFire)
     (simp add: updateGame_def beforePlayerPasses_def advance_def autoFire_def)

theorem autoFire_after_200_witness:
  "\<not> gameOver (freshWorld defaultProps) \<and>
   currentTime (idleInput 201) - lastBulletFire (freshWorld defaultProps) > 200 \<and>
   bullets (autoFire (idleInput 201) (movePlayer defaultProps (idleInput 201) (freshWorld defaultProps)))
     = [\<lparr> x = 414, y = 500, width = 4, height = 12, speed = 8, active = True \<rparr>] \<and>
   lastBulletFire (updateGame defaultProps (idleInput 201) (freshWorld defaultProps)) = 201 \<and>
   currentTime (idleInput 150) - lastBulletFire (freshWorld defaultProps) \<le> 200 \<and>
   bullets (autoFire (idleInput 150) (movePlayer defaultProps (idleInput 150) (freshWorld defaultProps)))
     = [] \<and>
   lastBulletFire (updateGame defaultProps (idleInput 150) (freshWorld defaultProps)) = 0"
proof -
  have a: "\<not> gameOver (freshWorld defaultProps)"
    by (simp add: freshWorld_def)
  have b: "currentTime (idleInput 201) - lastBulletFire (freshWorld defaultProps) > 200"
    and b': "currentTime (idleInput 150) - lastBulletFire (freshWorld defaultProps) \<le> 200"
    by (simp_all add: freshWorld_def idleInput_def)
  have c: "fireBullet (player (movePlayer defaultProps (idleInput 201) (freshWorld defaultProps)))
       = \<lparr> x = 414, y = 500, width = 4, height = 12, speed = 8, active = True \<rparr>"
    by (simp add: fireBullet_def movePlayer_def moveByKeys_def moveByTouch_def idleInput_def
        freshWorld_def defaultProps_def)
  have d: "bullets (freshWorld defaultProps) = []" "lastBulletFire (freshWorld defaultProps) = 0"
    by (simp_all add: freshWorld_def)
  have e: "currentTime (idleInput 201) = 201"
    by (simp add: idleInput_def)
  from autoFire_after_200 [OF a, of defaultProps "idleInput 201"] b c d e
  have fired: "bullets (autoFire (idleInput 201) (movePlayer defaultProps (idleInput 201) (freshWorld defaultProps)))
     = [\<lparr> x = 414, y = 500, width = 4, height = 12, speed = 8, active = True \<rparr>] \<and>
     lastBulletFire (updateGame defaultProps (idleInput 201) (freshWorld defaultProps)) = 201"
    by simp
  from autoFire_after_200 [OF a, of defaultProps "idleInput 150"] b' d
  have held: "bullets (autoFire (idleInput 150) (movePlayer defaultProps (idleInput 150) (freshWorld defaultProps)))
     = [] \<and>
     lastBulletFire (updateGame defaultProps (idleInput 150) (freshWorld defaultProps)) = 0"
    by simp
  from a b b' fired held show ?thesis
    by simp
qed

subsection \<open>The collision test\<close>

text \<open>
  Claim C7. For all rectangles \<open>a\<close> and \<open>b\<close>, \<open>checkCollision a b\<close> is true exactly when
  \<open>a.x < b.x + b.width\<close>, \<open>a.x + a.width > b.x\<close>, \<open>a.y < b.y + b.height\<close> and
  \<open>a.y + a.height > b.y\<close>. It is a function of its two arguments and returns only the
  truth value, so neither argument changes.
\<close>

theorem checkCollision_iff:
  "checkCollision a b \<longleftrightarrow>
     x a < x b + width b \<and> x a + width a > x b \<and>
     y a < y b + height b \<and> y a + height a > y b"
  by (simp add: checkCollision_def)

subsection \<open>Reset\<close>

text \<open>
  Claim C8. For every component, whatever its world (a finished game in particular),
  \<open>resetGame\<close> gives a world with score 0, \<open>gameOver\<close> false, no bullets, no enemy
  bullets, no enemies, no explosions and an active player, and leaves the props (the
  colours, the sizes and the speed multiplier) as they were.
\<close>

theorem resetGame_fresh:
  "score (game (resetGame c)) = 0 \<and>
   gameOver (game (resetGame c)) = False \<and>
   bullets (game (resetGame c)) = [] \<and>
   enemyBullets (game (resetGame c)) = [] \<and>
   enemies (game (resetGame c)) = [] \<and>
   explosions (game (resetGame c)) = [] \<and>
   active (player (game (resetGame c))) = True \<and>
   props (resetGame c) = props c"
  by (simp add: resetGame_def freshWorld_def)

subsection \<open>What a game-over collision changes\<close>

text \<open>
  Claim C9. A collision that ends the game changes only the \<open>gameOver\<close> flag and the
  explosions: each of the two passes against the player returns its world with the flag
  set if an active object overlaps the player and with one explosion at the centre of
  the player pushed for every such object. In a tick of a running game, every active
  enemy or enemy bullet that overlaps the player (in the world left by the bullet-enemy
  pass) ends the game, is itself, still active, in the world after the tick, and has
  its explosion there with frame 1. The rest of the tick after the bullet-enemy pass
  only filters the inactive objects out and ages the explosions.
\<close>

theorem player_collision_effects:
  "enemyPlayerCollisions s =
     s\<lparr> explosions := explosions s @
          replicate (length (filter (\<lambda>e. active e \<and> checkCollision e (player s)) (enemies s)))
            (playerExplosion (player s)),
        gameOver := gameOver s \<or> (\<exists>e\<in>set (enemies s). active e \<and> checkCollision e (player s)) \<rparr> \<and>
   enemyBulletPlayerCollisions s =
     s\<lparr> explosions := explosions s @
          replicate (length (filter (\<lambda>b. active b \<and> checkCollision b (player s)) (enemyBullets s)))
            (playerExplosion (player s)),
        gameOver := gameOver s \<or> (\<exists>b\<in>set (enemyBullets s). active b \<and> checkCollision b (player s)) \<rparr> \<and>
   (\<not> gameOver s \<longrightarrow>
      (\<forall>e\<in>set (enemies (beforePlayerPasses p i s)).
         active e \<and> checkCollision e (player (beforePlayerPasses p i s)) \<longrightarrow>
           gameOver (updateGame p i s) \<and> e \<in> set (enemies (updateGame p i s)) \<and>
           (playerExplosion (player (updateGame p i s)))\<lparr> frame := 1 \<rparr>
              \<in> set (explosions (updateGame p i s))) \<and>
      (\<forall>b\<in>set (enemyBullets (beforePlayerPasses p i s)).
         active b \<and> checkCollision b (player (beforePlayerPasses p i s)) \<longrightarrow>
           gameOver (updateGame p i s) \<and> b \<in> set (enemyBullets (updateGame p i s)) \<and>
           (playerExplosion (player (updateGame p i s)))\<lparr> frame := 1 \<rparr>
              \<in> set (explosions (updateGame p i s))) \<and>
      player (updateGame p i s) = player (beforePlayerPasses p i s) \<and>
      bullets (updateGame p i s) = filter active (bullets (beforePlayerPasses p i s)) \<and>
      enemyBullets (updateGame p i s) = filter active (enemyBullets (beforePlayerPasses p i s)) \<and>
      enemies (updateGame p i s) = filter active (enemies (beforePlayerPasses p i s)) \<and>
      lastEnemySpawn (updateGame p i s) = lastEnemySpawn (beforePlayerPasses p i s) \<and>
      lastBulletFire (updateGame p i s) = lastBulletFire (beforePlayerPasses p i s) \<and>
      score (updateGame p i s) = score (beforePlayerPasses p i s) \<and>
      explosions (updateGame p i s) =
        filter (\<lambda>e. frame e < 10)
          (map (\<lambda>e. e\<lparr> frame := frame e + 1 \<rparr>)
            (explosions (beforePlayerPasses p i s) @
             replicate
               (length (filter (\<lambda>e. active e \<and> checkCollision e (player (beforePlayerPasses p i s)))
                  (enemies (beforePlayerPasses p i s))))
               (playerExplosion (player (beforePlayerPasses p i s))) @
             replicate
               (length (filter (\<lambda>b. active b \<and> checkCollision b (player (beforePlayerPasses p i s)))
                  (enemyBullets (beforePlayerPasses p i s))))
               (playerExplosion (player (beforePlayerPasses p i s))))))"
proof (intro conjI impI ballI)
  show "enemyPlayerCollisions s =
     s\<lparr> explosions := explosions s @
          replicate (length (filter (\<lambda>e. active e \<and> checkCollision e (player s)) (enemies s)))
            (playerExplosion (player s)),
        gameOver := gameOver s \<or> (\<exists>e\<in>set (enemies s). active e \<and> checkCollision e (player s)) \<rparr>"
    by (rule enemyPlayerCollisions_record)
  show "enemyBulletPlayerCollisions s =
     s\<lparr> explosions := explosions s @
          replicate (length (filter (\<lambda>b. active b \<and> checkCollision b (player s)) (enemyBullets s)))
            (playerExplosion (player s)),
        gameOver := gameOver s \<or> (\<exists>b\<in>set (enemyBullets s). active b \<and> checkCollision b (player s)) \<rparr>"
    by (rule enemyBulletPlayerCollisions_record)
next
  fix e
  assume "\<not> gameOver s" and "e \<in> set (enemies (beforePlayerPasses p i s))"
    and "active e \<and> checkCollision e (player (beforePlayerPasses p i s))"
  then show "gameOver (updateGame p i s)" and "e \<in> set (enemies (updateGame p i s))"
    and "(playerExplosion (player (updateGame p i s)))\<lparr> frame := 1 \<rparr>
              \<in> set (explosions (updateGame p i s))"
    using finish_collider_enemy [of e "beforePlayerPasses p i s"]
    by (simp_all add: updateGame_def)
next
  fix b
  assume "\<not> gameOver s" and "b \<in> set (enemyBullets (beforePlayerPasses p i s))"
    and "active b \<and> checkCollision b (player (beforePlayerPasses p i s))"
  then show "gameOver (updateGame p i s)" and "b \<in> set (enemyBullets (updateGame p i s))"
    and "(playerExplosion (player (updateGame p i s)))\<lparr> frame := 1 \<rparr>
              \<in> set (explosions (updateGame p i s))"
    using finish_collider_enemyBullet [of b "beforePlayerPasses p i s"]
    by (simp_all add: updateGame_def)
next
  assume live: "\<not> gameOver s"
  then show "player (updateGame p i s) = player (beforePlayerPasses p i s)"
    and "bullets (updateGame p i s) = filter active (bullets (beforePlayerPasses p i s))"
    and "enemyBullets (updateGame p i s) = filter active (enemyBullets (beforePlayerPasses p i s))"
    and "enemies (updateGame p i s) = filter active (enemies (beforePlayerPasses p i s))"
    and "lastEnemySpawn (updateGame p i s) = lastEnemySpawn (beforePlayerPasses p i s)"
    and "lastBulletFire (updateGame p i s) = lastBulletFire (beforePlayerPasses p i s)"
    and "score (updateGame p i s) = score (beforePlayerPasses p i s)"
    by (simp_all add: updateGame_def)
  from live show "explosions (updateGame p i s) =
        filter (\<lambda>e. frame e < 10)
          (map (\<lambda>e. e\<lparr> frame := frame e + 1 \<rparr>)
            (explosions (beforePlayerPasses p i s) @
             replicate
               (length (filter (\<lambda>e. active e \<and> checkCollision e (player (beforePlayerPasses p i s)))
                  (enemies (beforePlayerPasses p i s))))
               (playerExplosion (player (beforePlayerPasses p i s))) @
             replicate
               (length (filter (\<lambda>b. active b \<and> checkCollision b (player (beforePlayerPasses p i s)))
                  (enemyBullets (beforePlayerPasses p i s))))
               (playerExplosion (player (beforePlayerPasses p i s)))))"
    by (simp add: updateGame_def finish_explosions)
qed

theorem player_collision_effects_witness:
  "\<not> gameOver ramWorld \<and>
   gameOver (updateGame defaultProps (idleInput 1100) ramWorld) \<and>
   enemies (updateGame defaultProps (idleInput 1100) ramWorld) =
     [\<lparr> x = 400, y = 480, width = 32, height = 32, speed = 2, active = True, type = 1 \<rparr>] \<and>
   enemyBullets (updateGame defaultProps (idleInput 1100) ramWorld) =
     [\<lparr> x = 410, y = 509, width = 4, height = 8, speed = 4, active = True \<rparr>] \<and>
   explosions (updateGame defaultProps (idleInput 1100) ramWorld) =
     [\<lparr> explosion.x = 416, explosion.y = 516, frame = 1, explosion.active = True \<rparr>,
      \<lparr> explosion.x = 416, explosion.y = 516, frame = 1, explosion.active = True \<rparr>]"
proof -
  let ?e = "\<lparr> x = 400, y = 480, width = 32, height = 32, speed = 2, active = True, type = 1 \<rparr>"
  have live: "\<not> gameOver ramWorld"
    by (simp add: ramWorld_def)
  have mem: "?e \<in> set (enemies (beforePlayerPasses defaultProps (idleInput 1100) ramWorld))"
    by (simp add: beforePlayerPasses_ramWorld)
  have hit: "active ?e \<and>
      checkCollision ?e (player (beforePlayerPasses defaultProps (idleInput 1100) ramWorld))"
    by (simp add: beforePlayerPasses_ramWorld) (simp add: ramWorld_def checkCollision_def defaultPlayer_def)
  from player_collision_effects [of ramWorld defaultProps "idleInput 1100"] live mem hit
  have "gameOver (updateGame defaultProps (idleInput 1100) ramWorld)"
    by blast
  with live show ?thesis
    by (simp add: updateGame_ramWorld)
qed

subsection \<open>The frames of the explosions\<close>

text \<open>
  Claim C10. After any run of ticks from the start world, every explosion of the world
  has a frame from 1 to 9: an explosion is pushed with frame 0 and aged to 1 before its
  tick ends, and one that reaches frame 10 is removed in that tick. The second conjunct
  is the step that carries the property from one tick to the next.
\<close>

theorem explosion_frames_1_to_9:
  "(\<forall>e\<in>set (explosions (runTicks pis (freshWorld p0))). 1 \<le> frame e \<and> frame e \<le> 9) \<and>
   (framesOk s \<longrightarrow> framesOk (updateGame p i s))"
proof -
  have "framesOk (freshWorld p0)"
    by (simp add: framesOk_def freshWorld_def)
  then have "framesOk (runTicks pis (freshWorld p0))"
    by (rule runTicks_framesOk)
  then have "\<forall>e\<in>set (explosions (runTicks pis (freshWorld p0))). 1 \<le> frame e \<and> frame e \<le> 9"
    by (simp add: framesOk_def)
  moreover have "framesOk s \<longrightarrow> framesOk (updateGame p i s)"
    by (simp add: updateGame_framesOk)
  ultimately show ?thesis
    by blast
qed

theorem explosion_frames_1_to_9_witness:
  "framesOk battleWorld \<and>
   explosions (updateGame defaultProps (idleInput 1100) battleWorld) =
     [\<lparr> explosion.x = 200, explosion.y = 200, frame = 2, explosion.active = True \<rparr>,
      \<lparr> explosion.x = 416, explosion.y = 96, frame = 1, explosion.active = True \<rparr>] \<and>
   framesOk (updateGame defaultProps (idleInput 1100) battleWorld)"
proof -
  have ok: "framesOk battleWorld"
    by (simp add: framesOk_def battleWorld_def)
  have ex: "explosions (updateGame defaultProps (idleInput 1100) battleWorld) =
     [\<lparr> explosion.x = 200, explosion.y = 200, frame = 2, explosion.active = True \<rparr>,
      \<lparr> explosion.x = 416, explosion.y = 96, frame = 1, explosion.active = True \<rparr>]"
    by (simp add: updateGame_battleWorld)
  from explosion_frames_1_to_9 [of "[]" defaultProps battleWorld defaultProps "idleInput 1100"] ok
  have "framesOk (updateGame defaultProps (idleInput 1100) battleWorld)"
    by simp
  with ok ex show ?thesis
    by simp
qed

end
